theory Spec2Isabelle
  imports Main "HOL-Library.Sublist" "HOL-Library.Multiset"
begin

text \<open>
  The stock synchronisation of seller.py and market.py: the feed of a vendor is turned into
  stock and price updates for two marketplaces. The development follows the two files:
  the values and built-in functions of Python they rely on, the unit converter, the
  batcher, the offer reconciler and the price builder of each file, the paginator of each
  file and the orchestrator of seller.py; then the properties. Exceptions are values:
  a function that can raise returns a sum, \<^verbatim>\<open>Inl\<close> for the exception. A list the caller
  can see changed is returned with the result. The network is a parameter, and so is what
  \<^verbatim>\<open>int\<close> takes from the interpreter.
\<close>

section \<open>Python values, exceptions and strings\<close>

text \<open>
  The feed rows come from \<^verbatim>\<open>pandas.read_excel(...).to_dict(orient="records")\<close>: each row is a
  dictionary whose cells are Python objects. The model has the three kinds of cell the two
  source files distinguish through \<^verbatim>\<open>str(...)\<close>, \<^verbatim>\<open>int(...)\<close> and \<^verbatim>\<open>.split\<close>: a missing
  key (\<^verbatim>\<open>dict.get\<close> answers \<^verbatim>\<open>None\<close>), an integer and a string. A string is a byte string,
  a character outside ASCII being its UTF-8 bytes; none of those bytes is a digit, a period,
  a sign or white space, so splitting at a period and keeping digits act on bytes as they
  act on code points. Floating-point cells are outside the model.

  An integer cell is a number of the sheet, that is a double, which the reader has found
  integral: its magnitude is below \<open>2 ^ 1024\<close>, so its decimal numeral has at most 309
  digits. The interpreter limits the digits of a conversion between \<^verbatim>\<open>int\<close> and \<^verbatim>\<open>str\<close>
  only above 640 digits, so \<^verbatim>\<open>str\<close> of a cell never meets the limit.
\<close>

typedef xl_int = "{i :: int. \<bar>i\<bar> < 2 ^ 1024}"
  by (rule exI [of _ 0]) simp

datatype error =
  ValueError | TypeError | AttributeError | IndexError
  | HTTPError | JSONDecodeError | ReadTimeout | ConnectionError

datatype pyval = PNone | PInt xl_int | PStr string

subsection \<open>\<^verbatim>\<open>str(x)\<close>\<close>

fun digits_nat :: "nat \<Rightarrow> string" where
  "digits_nat n =
     (if n < 10 then [char_of (48 + n)]
      else digits_nat (n div 10) @ [char_of (48 + n mod 10)])"

declare digits_nat.simps [simp del]

definition str_int :: "int \<Rightarrow> string" where
  "str_int i = (if i < 0 then CHR ''-'' # digits_nat (nat (- i)) else digits_nat (nat i))"

fun py_str :: "pyval \<Rightarrow> string" where
  "py_str PNone = ''None''"
| "py_str (PInt i) = str_int (Rep_xl_int i)"
| "py_str (PStr s) = s"

subsection \<open>\<^verbatim>\<open>int(x)\<close>\<close>

text \<open>
  Two things \<^verbatim>\<open>int\<close> of a string takes from the interpreter and not from the program:
  \<^item> the limit on the number of digits it converts (\<^verbatim>\<open>sys.get_int_max_str_digits()\<close>):
    4300 by default, 0 when there is none, as in the interpreters that predate it;
  \<^item> its Unicode tables. A string with a character outside ASCII is first transformed
    into ASCII: a white-space character becomes a blank, a decimal digit of any script
    its ASCII digit, and the first other character outside ASCII ends the result with a
    question mark. The transformation is a function of the interpreter here; it is
    applied to no string that is all ASCII.
\<close>

record interpreter =
  int_max_str_digits :: nat
  to_ascii :: "string \<Rightarrow> string"

definition is_ascii :: "string \<Rightarrow> bool" where
  "is_ascii s = list_all (\<lambda>c. (of_char c :: nat) < 128) s"

text \<open>The limit is looked at for more than 640 digits only, and a limit of 0 is none.\<close>

definition over_limit :: "interpreter \<Rightarrow> nat \<Rightarrow> bool" where
  "over_limit py n = (640 < n \<and> 0 < int_max_str_digits py \<and> int_max_str_digits py < n)"

text \<open>
  \<^verbatim>\<open>int\<close> of a string: after the transformation, white space is stripped at both ends,
  one sign may follow, then decimal digits, where single underscores may stand between two
  digits; more digits than the limit raise \<^verbatim>\<open>ValueError\<close> as a malformed string does.
  \<^verbatim>\<open>int(None)\<close> raises \<^verbatim>\<open>TypeError\<close>, \<^verbatim>\<open>int\<close> of an integer is that integer.
\<close>

definition is_digit :: "char \<Rightarrow> bool" where
  "is_digit c = (of_char CHR ''0'' \<le> (of_char c :: nat) \<and> (of_char c :: nat) \<le> of_char CHR ''9'')"

definition digit_val :: "char \<Rightarrow> int" where
  "digit_val c = int (of_char c) - 48"

definition is_space :: "char \<Rightarrow> bool" where
  "is_space c = (c \<in> set [CHR '' '', CHR 0x09, CHR 0x0A, CHR 0x0B, CHR 0x0C, CHR 0x0D])"

definition strip :: "string \<Rightarrow> string" where
  "strip s = rev (dropWhile is_space (rev (dropWhile is_space s)))"

fun digit_run :: "string \<Rightarrow> string option" where
  "digit_run [] = None"
| "digit_run [c] = (if is_digit c then Some [c] else None)"
| "digit_run (c # d # cs) =
     (if \<not> is_digit c then None
      else if d = CHR ''_'' then map_option (Cons c) (digit_run cs)
      else map_option (Cons c) (digit_run (d # cs)))"

definition int_of_digits :: "string \<Rightarrow> int" where
  "int_of_digits ds = foldl (\<lambda>a c. 10 * a + digit_val c) 0 ds"

definition int_of_str :: "interpreter \<Rightarrow> string \<Rightarrow> error + int" where
  "int_of_str py s =
     (let t = strip (if is_ascii s then s else to_ascii py s);
          neg = (t \<noteq> [] \<and> hd t = CHR ''-'');
          body = (if t \<noteq> [] \<and> (hd t = CHR ''-'' \<or> hd t = CHR ''+'') then tl t else t)
      in case digit_run body of
           None \<Rightarrow> Inl ValueError
         | Some ds \<Rightarrow>
             if over_limit py (length ds) then Inl ValueError
             else Inr (if neg then - int_of_digits ds else int_of_digits ds))"

fun py_int :: "interpreter \<Rightarrow> pyval \<Rightarrow> error + int" where
  "py_int py PNone = Inl TypeError"
| "py_int py (PInt i) = Inr (Rep_xl_int i)"
| "py_int py (PStr s) = int_of_str py s"

section \<open>Unit converter: \<^verbatim>\<open>price_conversion\<close> (seller.py)\<close>

text \<open>\<^verbatim>\<open>s.split(sep)\<close> for a separator of one character: never an empty list.\<close>

fun str_split :: "char \<Rightarrow> string \<Rightarrow> string list" where
  "str_split sep [] = [[]]"
| "str_split sep (c # cs) =
     (if c = sep then [] # str_split sep cs
      else (case str_split sep cs of
              [] \<Rightarrow> [[c]]
            | part # parts \<Rightarrow> (c # part) # parts))"

text \<open>\<^verbatim>\<open>re.sub("[^0-9]", "", s)\<close>: every character that is not an ASCII digit is deleted.\<close>

definition re_sub_non_digits :: "string \<Rightarrow> string" where
  "re_sub_non_digits s = filter is_digit s"

text \<open>
  \<^verbatim>\<open>return re.sub("[^0-9]", "", price.split(".")[0])\<close>. A cell that is not a string has no
  \<^verbatim>\<open>split\<close>: \<^verbatim>\<open>AttributeError\<close>, as the docstring says.
\<close>

fun price_conversion :: "pyval \<Rightarrow> error + string" where
  "price_conversion (PStr price) =
     (case str_split CHR ''.'' price of
        [] \<Rightarrow> Inl IndexError
      | part # _ \<Rightarrow> Inr (re_sub_non_digits part))"
| "price_conversion _ = Inl AttributeError"

text \<open>The docstring's example \<^verbatim>\<open>5'990.00\<close> followed by a blank, the three Cyrillic letters of
  the rouble abbreviation (in UTF-8) and a period.\<close>

definition example_price :: string where
  "example_price =
     ''5'' @ [CHR 0x27] @ ''990.00 '' @ [CHR 0xD1, CHR 0x80, CHR 0xD1, CHR 0x83, CHR 0xD0, CHR 0xB1] @ ''.''"

section \<open>Batcher: \<^verbatim>\<open>divide\<close> (seller.py)\<close>

text \<open>
  \<^verbatim>\<open>for i in range(0, len(lst), n): yield lst[i : i + n]\<close>, as the list its callers build
  with \<^verbatim>\<open>list(divide(...))\<close>. \<^verbatim>\<open>range\<close> raises \<^verbatim>\<open>ValueError\<close> for a step of zero and
  is empty for a negative step.
\<close>

function divide_from :: "nat \<Rightarrow> 'a list \<Rightarrow> nat \<Rightarrow> 'a list list" where
  "divide_from i lst n =
     (if n = 0 \<or> length lst \<le> i then []
      else take n (drop i lst) # divide_from (i + n) lst n)"
  by pat_completeness auto
termination
  by (relation "measure (\<lambda>(i, lst, n). length lst - i)") auto

declare divide_from.simps [simp del]

definition divide_list :: "'a list \<Rightarrow> int \<Rightarrow> error + 'a list list" where
  "divide_list lst n =
     (if n = 0 then Inl ValueError
      else if n < 0 then Inr []
      else Inr (divide_from 0 lst (nat n)))"

section \<open>Feed rows and update entries\<close>

text \<open>
  A row of the stock file, with the three cells the code reads: \<^verbatim>\<open>watch.get(...)\<close> of the
  columns for the code, the quantity and the price (the column titles are Cyrillic in the
  source; the field names transliterate them).
\<close>

record watch =
  Kod :: pyval
  Kolichestvo :: pyval
  Tsena :: pyval

text \<open>seller.py: \<^verbatim>\<open>{"offer_id": ..., "stock": ...}\<close>.\<close>

record stock_entry =
  offer_id :: string
  stock :: int

text \<open>seller.py: the dictionary \<^verbatim>\<open>price\<close> of \<^verbatim>\<open>create_prices\<close>.\<close>

record price_entry =
  auto_action_enabled :: string
  currency_code :: string
  price_offer_id :: string
  old_price :: string
  price :: string

text \<open>market.py: \<^verbatim>\<open>{"sku": ..., "warehouseId": ..., "items": [{"count": ..., "type": "FIT",
  "updatedAt": ...}]}\<close>.\<close>

record sku_item =
  item_count :: int
  item_type :: string
  updatedAt :: string

record sku_entry =
  sku :: string
  warehouseId :: string
  items :: "sku_item list"

text \<open>market.py: \<^verbatim>\<open>{"id": ..., "price": {"value": ..., "currencyId": "RUR"}}\<close>.\<close>

record price_body =
  price_value :: int
  currencyId :: string

record market_price =
  price_id :: string
  price_of :: price_body

section \<open>Offer reconciler: \<^verbatim>\<open>create_stocks\<close>\<close>

text \<open>
  The quantity block both files share (seller.py lines 186 to 192, market.py lines 168 to
  174): \<^verbatim>\<open>count = str(watch.get(...))\<close>, then \<^verbatim>\<open>100\<close> for \<^verbatim>\<open>">10"\<close>, \<^verbatim>\<open>0\<close> for \<^verbatim>\<open>"1"\<close>,
  and \<^verbatim>\<open>int\<close> of the cell itself otherwise.
\<close>

definition stock_of_count :: "interpreter \<Rightarrow> pyval \<Rightarrow> error + int" where
  "stock_of_count py quantity =
     (let count = py_str quantity
      in if count = ''>10'' then Inr 100
         else if count = ''1'' then Inr 0
         else py_int py quantity)"

text \<open>
  seller.py, the first loop of \<^verbatim>\<open>create_stocks\<close>. The list \<^verbatim>\<open>offer_ids\<close> is the caller's
  object and \<^verbatim>\<open>offer_ids.remove(x)\<close> deletes the first \<^verbatim>\<open>x\<close> from it, so the loop
  carries the list and returns it with the stocks. \<^verbatim>\<open>int\<close> raising ends the loop.
\<close>

fun stocks_loop ::
  "interpreter \<Rightarrow> watch list \<Rightarrow> stock_entry list \<Rightarrow> string list \<Rightarrow> error + stock_entry list \<times> string list"
where
  "stocks_loop py [] stocks offer_ids = Inr (stocks, offer_ids)"
| "stocks_loop py (watch # rest) stocks offer_ids =
     (if py_str (Kod watch) \<in> set offer_ids then
        (case stock_of_count py (Kolichestvo watch) of
           Inl e \<Rightarrow> Inl e
         | Inr n \<Rightarrow>
             stocks_loop py rest
               (stocks @ [\<lparr>offer_id = py_str (Kod watch), stock = n\<rparr>])
               (remove1 (py_str (Kod watch)) offer_ids))
      else stocks_loop py rest stocks offer_ids)"

text \<open>The second loop: a zero entry for every id left in \<^verbatim>\<open>offer_ids\<close>.\<close>

fun zero_loop :: "string list \<Rightarrow> stock_entry list \<Rightarrow> stock_entry list" where
  "zero_loop [] stocks = stocks"
| "zero_loop (oid # rest) stocks = zero_loop rest (stocks @ [\<lparr>offer_id = oid, stock = 0\<rparr>])"

text \<open>The result is the returned list together with \<^verbatim>\<open>offer_ids\<close> as the call leaves it.\<close>

definition create_stocks ::
  "interpreter \<Rightarrow> watch list \<Rightarrow> string list \<Rightarrow> error + stock_entry list \<times> string list"
where
  "create_stocks py watch_remnants offer_ids =
     (case stocks_loop py watch_remnants [] offer_ids of
        Inl e \<Rightarrow> Inl e
      | Inr (stocks, offer_ids') \<Rightarrow> Inr (zero_loop offer_ids' stocks, offer_ids'))"

text \<open>
  market.py. \<^verbatim>\<open>date\<close> is the clock's reading at the start of the call, formatted; it is a
  parameter here.
\<close>

definition sku_of :: "string \<Rightarrow> string \<Rightarrow> string \<Rightarrow> int \<Rightarrow> sku_entry" where
  "sku_of warehouse_id date code n =
     \<lparr>sku = code, warehouseId = warehouse_id,
      items = [\<lparr>item_count = n, item_type = ''FIT'', updatedAt = date\<rparr>]\<rparr>"

fun market_stocks_loop ::
  "interpreter \<Rightarrow> string \<Rightarrow> string \<Rightarrow> watch list \<Rightarrow> sku_entry list \<Rightarrow> string list
   \<Rightarrow> error + sku_entry list \<times> string list"
where
  "market_stocks_loop py warehouse_id date [] stocks offer_ids = Inr (stocks, offer_ids)"
| "market_stocks_loop py warehouse_id date (watch # rest) stocks offer_ids =
     (if py_str (Kod watch) \<in> set offer_ids then
        (case stock_of_count py (Kolichestvo watch) of
           Inl e \<Rightarrow> Inl e
         | Inr n \<Rightarrow>
             market_stocks_loop py warehouse_id date rest
               (stocks @ [sku_of warehouse_id date (py_str (Kod watch)) n])
               (remove1 (py_str (Kod watch)) offer_ids))
      else market_stocks_loop py warehouse_id date rest stocks offer_ids)"

fun market_zero_loop ::
  "string \<Rightarrow> string \<Rightarrow> string list \<Rightarrow> sku_entry list \<Rightarrow> sku_entry list"
where
  "market_zero_loop warehouse_id date [] stocks = stocks"
| "market_zero_loop warehouse_id date (oid # rest) stocks =
     market_zero_loop warehouse_id date rest (stocks @ [sku_of warehouse_id date oid 0])"

definition market_create_stocks ::
  "interpreter \<Rightarrow> string \<Rightarrow> watch list \<Rightarrow> string list \<Rightarrow> string \<Rightarrow> error + sku_entry list \<times> string list"
where
  "market_create_stocks py date watch_remnants offer_ids warehouse_id =
     (case market_stocks_loop py warehouse_id date watch_remnants [] offer_ids of
        Inl e \<Rightarrow> Inl e
      | Inr (stocks, offer_ids') \<Rightarrow>
          Inr (market_zero_loop warehouse_id date offer_ids' stocks, offer_ids'))"

section \<open>Price builder: \<^verbatim>\<open>create_prices\<close>\<close>

text \<open>
  seller.py. The result again carries \<^verbatim>\<open>offer_ids\<close> as the call leaves it; no statement of
  the function changes the list.
\<close>

fun prices_loop ::
  "watch list \<Rightarrow> string list \<Rightarrow> price_entry list \<Rightarrow> error + price_entry list \<times> string list"
where
  "prices_loop [] offer_ids prices = Inr (prices, offer_ids)"
| "prices_loop (watch # rest) offer_ids prices =
     (if py_str (Kod watch) \<in> set offer_ids then
        (case price_conversion (Tsena watch) of
           Inl e \<Rightarrow> Inl e
         | Inr p \<Rightarrow>
             prices_loop rest offer_ids
               (prices @ [\<lparr>auto_action_enabled = ''UNKNOWN'', currency_code = ''RUB'',
                           price_offer_id = py_str (Kod watch), old_price = ''0'',
                           price = p\<rparr>]))
      else prices_loop rest offer_ids prices)"

definition create_prices ::
  "watch list \<Rightarrow> string list \<Rightarrow> error + price_entry list \<times> string list"
where
  "create_prices watch_remnants offer_ids = prices_loop watch_remnants offer_ids []"

text \<open>market.py: the price is \<^verbatim>\<open>int(price_conversion(...))\<close>.\<close>

fun market_prices_loop ::
  "interpreter \<Rightarrow> watch list \<Rightarrow> string list \<Rightarrow> market_price list \<Rightarrow> error + market_price list \<times> string list"
where
  "market_prices_loop py [] offer_ids prices = Inr (prices, offer_ids)"
| "market_prices_loop py (watch # rest) offer_ids prices =
     (if py_str (Kod watch) \<in> set offer_ids then
        (case price_conversion (Tsena watch) of
           Inl e \<Rightarrow> Inl e
         | Inr p \<Rightarrow>
             (case int_of_str py p of
                Inl e \<Rightarrow> Inl e
              | Inr v \<Rightarrow>
                  market_prices_loop py rest offer_ids
                    (prices @ [\<lparr>price_id = py_str (Kod watch),
                                price_of = \<lparr>price_value = v, currencyId = ''RUR''\<rparr>\<rparr>])))
      else market_prices_loop py rest offer_ids prices)"

definition market_create_prices ::
  "interpreter \<Rightarrow> watch list \<Rightarrow> string list \<Rightarrow> error + market_price list \<times> string list"
where
  "market_create_prices py watch_remnants offer_ids =
     market_prices_loop py watch_remnants offer_ids []"

section \<open>Paginator: \<^verbatim>\<open>get_offer_ids\<close>\<close>

text \<open>
  \<^verbatim>\<open>get_product_list\<close> is one HTTP request. The remote side is a parameter: a function
  from the cursor sent and the state of the world to the answer and the next state of the
  world. An answer is the dictionary under \<^verbatim>\<open>"result"\<close>, or the exception the request, the
  status check or a malformed body raises.
\<close>

record ozon_item =
  ozon_offer_id :: string

record ozon_result =
  result_items :: "ozon_item list"
  total :: int
  last_id :: string

record offer_info =
  shopSku :: string

record mapping_entry =
  offer :: offer_info

record paging_info =
  nextPageToken :: "string option"

record market_result =
  offerMappingEntries :: "mapping_entry list"
  paging :: paging_info

text \<open>
  seller.py, the \<^verbatim>\<open>while True\<close> loop: it ends when the reported total equals the number of
  items accumulated, or with the exception of a request. A run that never ends has the
  value \<^verbatim>\<open>None\<close>.
\<close>

partial_function (option) seller_product_loop ::
  "(string \<Rightarrow> 's \<Rightarrow> (error + ozon_result) \<times> 's) \<Rightarrow> string \<Rightarrow> ozon_item list \<Rightarrow> 's
   \<Rightarrow> ((error + ozon_item list) \<times> 's) option"
where
  "seller_product_loop request cursor product_list s =
     (case request cursor s of
        (Inl e, s') \<Rightarrow> Some (Inl e, s')
      | (Inr some_prod, s') \<Rightarrow>
          (let product_list' = product_list @ result_items some_prod
           in if total some_prod = int (length product_list')
              then Some (Inr product_list', s')
              else seller_product_loop request (last_id some_prod) product_list' s'))"

definition get_offer_ids ::
  "(string \<Rightarrow> 's \<Rightarrow> (error + ozon_result) \<times> 's) \<Rightarrow> 's \<Rightarrow> ((error + string list) \<times> 's) option"
where
  "get_offer_ids request s =
     (case seller_product_loop request [] [] s of
        None \<Rightarrow> None
      | Some (Inl e, s') \<Rightarrow> Some (Inl e, s')
      | Some (Inr product_list, s') \<Rightarrow> Some (Inr (map ozon_offer_id product_list), s'))"

text \<open>
  market.py: the loop ends when \<^verbatim>\<open>nextPageToken\<close> is missing or empty (\<^verbatim>\<open>if not page\<close>).
\<close>

partial_function (option) market_product_loop ::
  "(string \<Rightarrow> 's \<Rightarrow> (error + market_result) \<times> 's) \<Rightarrow> string \<Rightarrow> mapping_entry list \<Rightarrow> 's
   \<Rightarrow> ((error + mapping_entry list) \<times> 's) option"
where
  "market_product_loop request page product_list s =
     (case request page s of
        (Inl e, s') \<Rightarrow> Some (Inl e, s')
      | (Inr some_prod, s') \<Rightarrow>
          (let product_list' = product_list @ offerMappingEntries some_prod
           in case nextPageToken (paging some_prod) of
                None \<Rightarrow> Some (Inr product_list', s')
              | Some page' \<Rightarrow>
                  if page' = [] then Some (Inr product_list', s')
                  else market_product_loop request page' product_list' s'))"

definition market_get_offer_ids ::
  "(string \<Rightarrow> 's \<Rightarrow> (error + market_result) \<times> 's) \<Rightarrow> 's \<Rightarrow> ((error + string list) \<times> 's) option"
where
  "market_get_offer_ids request s =
     (case market_product_loop request [] [] s of
        None \<Rightarrow> None
      | Some (Inl e, s') \<Rightarrow> Some (Inl e, s')
      | Some (Inr product_list, s') \<Rightarrow>
          Some (Inr (map (\<lambda>product. shopSku (offer product)) product_list), s'))"

text \<open>
  The remote reports exhaustion after finitely many pages: the pages answered, from a
  cursor and a state of the world on, the last one being the first that ends the loop.
  For the seller variant the number of items accumulated before the page is part of the
  condition.
\<close>

inductive seller_pages ::
  "(string \<Rightarrow> 's \<Rightarrow> (error + ozon_result) \<times> 's) \<Rightarrow> string \<Rightarrow> nat \<Rightarrow> 's
   \<Rightarrow> ozon_result list \<Rightarrow> 's \<Rightarrow> bool"
  for request
where
  seller_last:
    "request cursor s = (Inr p, s') \<Longrightarrow> total p = int (n + length (result_items p))
     \<Longrightarrow> seller_pages request cursor n s [p] s'"
| seller_more:
    "request cursor s = (Inr p, s1) \<Longrightarrow> total p \<noteq> int (n + length (result_items p))
     \<Longrightarrow> seller_pages request (last_id p) (n + length (result_items p)) s1 ps s'
     \<Longrightarrow> seller_pages request cursor n s (p # ps) s'"

inductive market_pages ::
  "(string \<Rightarrow> 's \<Rightarrow> (error + market_result) \<times> 's) \<Rightarrow> string \<Rightarrow> 's
   \<Rightarrow> market_result list \<Rightarrow> 's \<Rightarrow> bool"
  for request
where
  market_last:
    "request page s = (Inr p, s') \<Longrightarrow> nextPageToken (paging p) \<in> {None, Some []}
     \<Longrightarrow> market_pages request page s [p] s'"
| market_more:
    "request page s = (Inr p, s1) \<Longrightarrow> nextPageToken (paging p) = Some page' \<Longrightarrow> page' \<noteq> []
     \<Longrightarrow> market_pages request page' s1 ps s'
     \<Longrightarrow> market_pages request page s (p # ps) s'"

text \<open>Remotes that never report exhaustion and never send an item.\<close>

definition stuck_seller :: "string \<Rightarrow> unit \<Rightarrow> (error + ozon_result) \<times> unit" where
  "stuck_seller cursor s = (Inr \<lparr>result_items = [], total = 1, last_id = ''x''\<rparr>, s)"

definition stuck_market :: "string \<Rightarrow> unit \<Rightarrow> (error + market_result) \<times> unit" where
  "stuck_market page s =
     (Inr \<lparr>offerMappingEntries = [], paging = \<lparr>nextPageToken = Some ''x''\<rparr>\<rparr>, s)"

text \<open>Remotes with two pages; the state of the world counts the requests.\<close>

definition two_page_seller :: "string \<Rightarrow> nat \<Rightarrow> (error + ozon_result) \<times> nat" where
  "two_page_seller cursor s =
     (if cursor = [] then
        Inr \<lparr>result_items = [\<lparr>ozon_offer_id = ''A''\<rparr>, \<lparr>ozon_offer_id = ''B''\<rparr>],
             total = 3, last_id = ''B''\<rparr>
      else Inr \<lparr>result_items = [\<lparr>ozon_offer_id = ''C''\<rparr>], total = 3, last_id = ''C''\<rparr>,
      Suc s)"

definition two_page_market :: "string \<Rightarrow> nat \<Rightarrow> (error + market_result) \<times> nat" where
  "two_page_market page s =
     (if page = [] then
        Inr \<lparr>offerMappingEntries = [\<lparr>offer = \<lparr>shopSku = ''A''\<rparr>\<rparr>, \<lparr>offer = \<lparr>shopSku = ''B''\<rparr>\<rparr>],
             paging = \<lparr>nextPageToken = Some ''p2''\<rparr>\<rparr>
      else Inr \<lparr>offerMappingEntries = [\<lparr>offer = \<lparr>shopSku = ''C''\<rparr>\<rparr>],
                paging = \<lparr>nextPageToken = None\<rparr>\<rparr>,
      Suc s)"

section \<open>Sync orchestrator: \<^verbatim>\<open>main\<close> of seller.py\<close>

text \<open>
  The four functions of seller.py that talk to the network are the fields of the remote
  side: each takes the state of the world and returns its answer (for an update, the
  exception raised, if any) with the next state. The credentials \<^verbatim>\<open>main\<close> reads from the
  environment before its \<^verbatim>\<open>try\<close> statement are part of the remote side.
\<close>

record 's remote =
  get_product_list :: "string \<Rightarrow> 's \<Rightarrow> (error + ozon_result) \<times> 's"
  download_stock :: "'s \<Rightarrow> (error + watch list) \<times> 's"
  update_stocks :: "stock_entry list \<Rightarrow> 's \<Rightarrow> error option \<times> 's"
  update_price :: "price_entry list \<Rightarrow> 's \<Rightarrow> error option \<times> 's"

text \<open>\<^verbatim>\<open>for some in list(divide(...)): update(some, ...)\<close>: the first exception ends the loop.\<close>

fun update_all ::
  "('a list \<Rightarrow> 's \<Rightarrow> error option \<times> 's) \<Rightarrow> 'a list list \<Rightarrow> 's \<Rightarrow> error option \<times> 's"
where
  "update_all update [] s = (None, s)"
| "update_all update (some # rest) s =
     (case update some s of
        (Some e, s') \<Rightarrow> (Some e, s')
      | (None, s') \<Rightarrow> update_all update rest s')"

text \<open>
  The body of the \<^verbatim>\<open>try\<close> statement. Its value is the exception that leaves it, or the
  lists \<^verbatim>\<open>stocks\<close> and \<^verbatim>\<open>prices\<close> it has built, with the state of the world at that
  moment; \<^verbatim>\<open>None\<close> when \<^verbatim>\<open>get_offer_ids\<close> never returns. \<^verbatim>\<open>create_prices\<close> receives the list
  \<^verbatim>\<open>offer_ids\<close> as \<^verbatim>\<open>create_stocks\<close> has left it.
\<close>

definition main_try ::
  "interpreter \<Rightarrow> 's remote \<Rightarrow> 's \<Rightarrow> ((error + stock_entry list \<times> price_entry list) \<times> 's) option"
where
  "main_try py r s0 =
     (case get_offer_ids (get_product_list r) s0 of
        None \<Rightarrow> None
      | Some (Inl e, s1) \<Rightarrow> Some (Inl e, s1)
      | Some (Inr offer_ids, s1) \<Rightarrow>
     (case download_stock r s1 of
        (Inl e, s2) \<Rightarrow> Some (Inl e, s2)
      | (Inr watch_remnants, s2) \<Rightarrow>
     (case create_stocks py watch_remnants offer_ids of
        Inl e \<Rightarrow> Some (Inl e, s2)
      | Inr (stocks, offer_ids') \<Rightarrow>
     (case divide_list stocks 100 of
        Inl e \<Rightarrow> Some (Inl e, s2)
      | Inr stock_batches \<Rightarrow>
     (case update_all (update_stocks r) stock_batches s2 of
        (Some e, s3) \<Rightarrow> Some (Inl e, s3)
      | (None, s3) \<Rightarrow>
     (case create_prices watch_remnants offer_ids' of
        Inl e \<Rightarrow> Some (Inl e, s3)
      | Inr (prices, offer_ids'') \<Rightarrow>
     (case divide_list prices 900 of
        Inl e \<Rightarrow> Some (Inl e, s3)
      | Inr price_batches \<Rightarrow>
     (case update_all (update_price r) price_batches s3 of
        (Some e, s4) \<Rightarrow> Some (Inl e, s4)
      | (None, s4) \<Rightarrow> Some (Inr (stocks, prices), s4)))))))))"

text \<open>The three \<^verbatim>\<open>except\<close> clauses, in their order, and what each prints.\<close>

datatype printed = TimeoutMessage | ConnectionMessage error | Error2Message error

definition handler :: "error \<Rightarrow> printed" where
  "handler e =
     (if e = ReadTimeout then TimeoutMessage
      else if e = ConnectionError then ConnectionMessage e
      else Error2Message e)"

text \<open>\<^verbatim>\<open>main\<close>: what it prints, if anything, and the state of the world it leaves.\<close>

definition main :: "interpreter \<Rightarrow> 's remote \<Rightarrow> 's \<Rightarrow> (printed option \<times> 's) option" where
  "main py r s0 =
     (case main_try py r s0 of
        None \<Rightarrow> None
      | Some (Inl e, s) \<Rightarrow> Some (Some (handler e), s)
      | Some (Inr built, s) \<Rightarrow> Some (None, s))"

section \<open>Notions used to state the properties\<close>

text \<open>The code of a row as the loops compare it: \<^verbatim>\<open>str(watch.get(...))\<close> of the code cell.\<close>

definition code_of :: "watch \<Rightarrow> string" where
  "code_of w = py_str (Kod w)"

definition codes :: "watch list \<Rightarrow> string set" where
  "codes F = set (map code_of F)"

text \<open>The entry a row stands for when its quantity normalises, and the zero entry of an id.\<close>

definition stock_row :: "interpreter \<Rightarrow> watch \<Rightarrow> stock_entry option" where
  "stock_row py w =
     (case stock_of_count py (Kolichestvo w) of
        Inl e \<Rightarrow> None
      | Inr n \<Rightarrow> Some \<lparr>offer_id = code_of w, stock = n\<rparr>)"

definition zero_entry :: "string \<Rightarrow> stock_entry" where
  "zero_entry k = \<lparr>offer_id = k, stock = 0\<rparr>"

text \<open>The market entry with the id and count of a seller entry.\<close>

definition to_sku :: "string \<Rightarrow> string \<Rightarrow> stock_entry \<Rightarrow> sku_entry" where
  "to_sku warehouse_id date e = sku_of warehouse_id date (offer_id e) (stock e)"

text \<open>A feed with a repeated code, a code the marketplace does not know, a row whose cells
  are integers and the \<^verbatim>\<open>">10"\<close> sentinel.\<close>

definition feed_example :: "watch list" where
  "feed_example =
     [\<lparr>Kod = PStr ''A'', Kolichestvo = PStr ''5'', Tsena = PStr ''100.00 x''\<rparr>,
      \<lparr>Kod = PStr ''A'', Kolichestvo = PStr ''7'', Tsena = PStr ''150.00 x''\<rparr>,
      \<lparr>Kod = PStr ''Z'', Kolichestvo = PStr ''abc'', Tsena = PNone\<rparr>,
      \<lparr>Kod = PInt (Abs_xl_int 12), Kolichestvo = PInt (Abs_xl_int 1), Tsena = PStr ''1''\<rparr>,
      \<lparr>Kod = PStr ''B'', Kolichestvo = PStr ''>10'', Tsena = PStr ''200.00 x''\<rparr>]"

text \<open>
  A remote side for running \<^verbatim>\<open>main\<close>: the state of the world is the log of the requests
  made. The listing answers with one page that holds the given ids and their number as
  total, the download answers with the given feed, and every update succeeds.
\<close>

datatype event =
  Listed string | Downloaded | StocksSent "stock_entry list" | PricesSent "price_entry list"

definition logged_remote :: "string list \<Rightarrow> watch list \<Rightarrow> event list remote" where
  "logged_remote ids feed =
     \<lparr>get_product_list = (\<lambda>cursor log.
          (Inr \<lparr>result_items = map (\<lambda>k. \<lparr>ozon_offer_id = k\<rparr>) ids,
                total = int (length ids), last_id = []\<rparr>,
           log @ [Listed cursor])),
      download_stock = (\<lambda>log. (Inr feed, log @ [Downloaded])),
      update_stocks = (\<lambda>some log. (None, log @ [StocksSent some])),
      update_price = (\<lambda>some log. (None, log @ [PricesSent some]))\<rparr>"

text \<open>A feed whose first row has an unknown code and a quantity that is no number.\<close>

definition feed_bad_unknown :: "watch list" where
  "feed_bad_unknown =
     [\<lparr>Kod = PStr ''Z'', Kolichestvo = PStr ''abc'', Tsena = PStr ''1.00 x''\<rparr>,
      \<lparr>Kod = PStr ''A'', Kolichestvo = PStr ''5'', Tsena = PStr ''100.00 x''\<rparr>]"

text \<open>A feed whose second row has a known code and a quantity that is no number.\<close>

definition feed_bad_known :: "watch list" where
  "feed_bad_known =
     [\<lparr>Kod = PStr ''A'', Kolichestvo = PStr ''5'', Tsena = PStr ''100.00 x''\<rparr>,
      \<lparr>Kod = PStr ''B'', Kolichestvo = PStr ''abc'', Tsena = PStr ''1.00 x''\<rparr>,
      \<lparr>Kod = PStr ''C'', Kolichestvo = PStr ''2'', Tsena = PStr ''3.00 x''\<rparr>]"

text \<open>A feed of one row, so without a repeated code.\<close>

definition feed_single :: "watch list" where
  "feed_single = [\<lparr>Kod = PStr ''A'', Kolichestvo = PStr ''5'', Tsena = PStr ''100.00 x''\<rparr>]"

text \<open>A feed whose only row has no price cell.\<close>

definition feed_no_price :: "watch list" where
  "feed_no_price = [\<lparr>Kod = PStr ''B'', Kolichestvo = PStr ''2'', Tsena = PNone\<rparr>]"

text \<open>
  Two interpreters to run the functions on. Both have the default limit of 4300 digits.
  The tables of the first know no digit and no white space outside ASCII, so its
  transformation answers the question mark at once; those of the second know the
  Arabic-Indic digit three (U+0663, in UTF-8 the bytes D9 A3) when it is the whole string.
\<close>

definition ascii_interpreter :: interpreter where
  "ascii_interpreter = \<lparr>int_max_str_digits = 4300, to_ascii = (\<lambda>s. ''?'')\<rparr>"

definition arabic_interpreter :: interpreter where
  "arabic_interpreter =
     \<lparr>int_max_str_digits = 4300,
      to_ascii = (\<lambda>s. if s = [CHR 0xD9, CHR 0xA3] then ''3'' else ''?'')\<rparr>"

text \<open>A quantity of 4301 digits, and a feed whose only row has it.\<close>

definition long_quantity :: string where
  "long_quantity = replicate 4301 CHR ''7''"

definition feed_long_quantity :: "watch list" where
  "feed_long_quantity =
     [\<lparr>Kod = PStr ''A'', Kolichestvo = PStr long_quantity, Tsena = PStr ''100.00 x''\<rparr>]"

section \<open>Properties of the unit converter\<close>

lemma hd_str_split: "\<exists>ps. str_split sep s = takeWhile (\<lambda>c. c \<noteq> sep) s # ps"
  by (induction s) (auto split: list.splits)

lemma price_conversion_str:
  "price_conversion (PStr s) = Inr (filter is_digit (takeWhile (\<lambda>c. c \<noteq> CHR ''.'') s))"
proof -
  obtain ps where "str_split CHR ''.'' s = takeWhile (\<lambda>c. c \<noteq> CHR ''.'') s # ps"
    using hd_str_split by blast
  then show ?thesis by (simp add: re_sub_non_digits_def)
qed

text \<open>
  C9: \<^verbatim>\<open>price_conversion\<close> of the docstring's example is \<^verbatim>\<open>"5990"\<close>, and for every string
  the result is the part before the first period with every character that is not a digit
  removed.
\<close>

theorem price_conversion_keeps_integer_digits:
  "price_conversion (PStr example_price) = Inr ''5990''
   \<and> price_conversion (PStr (a @ CHR ''.'' # b)) =
       Inr (filter is_digit (takeWhile (\<lambda>c. c \<noteq> CHR ''.'') (a @ CHR ''.'' # b)))"
  by (simp only: price_conversion_str) (simp add: example_price_def is_digit_def)

text \<open>
  C3 (as stated, refuted): a string without a period is not an error; \<^verbatim>\<open>split\<close> answers the
  whole string as its only part.
\<close>

theorem price_conversion_no_period_counterexample:
  "CHR ''.'' \<notin> set ''5990'' \<and> price_conversion (PStr ''5990'') = Inr ''5990''"
  by (simp add: re_sub_non_digits_def is_digit_def)

text \<open>
  C3 (amended): on a string that contains no period, \<^verbatim>\<open>price_conversion\<close> returns the digits
  of the whole string and raises nothing.
\<close>

theorem price_conversion_no_period:
  "CHR ''.'' \<notin> set s \<Longrightarrow> price_conversion (PStr s) = Inr (filter is_digit s)"
proof -
  assume "CHR ''.'' \<notin> set s"
  then have "takeWhile (\<lambda>c. c \<noteq> CHR ''.'') s = s"
    by (induction s) auto
  then show ?thesis by (simp only: price_conversion_str)
qed

theorem price_conversion_no_period_witness:
  "CHR ''.'' \<notin> set ''12 x'' \<and> price_conversion (PStr ''12 x'') = Inr ''12''"
proof -
  have h: "CHR ''.'' \<notin> set ''12 x''" by simp
  from price_conversion_no_period [OF h] h show ?thesis
    by (simp add: is_digit_def del: price_conversion.simps)
qed

section \<open>Properties of the batcher\<close>

lemma concat_divide_from: "0 < n \<Longrightarrow> concat (divide_from i lst n) = drop i lst"
proof (induction i lst n rule: divide_from.induct)
  case (1 i lst n)
  show ?case
  proof (cases "length lst \<le> i")
    case True
    then show ?thesis by (simp add: divide_from.simps)
  next
    case False
    with 1 have "concat (divide_from (i + n) lst n) = drop (i + n) lst" by simp
    moreover have "take n (drop i lst) @ drop (i + n) lst = drop i lst"
      by (metis add.commute append_take_drop_id drop_drop)
    ultimately show ?thesis using False 1(2) by (subst divide_from.simps) simp
  qed
qed

lemma chunks_divide_from:
  "0 < n \<Longrightarrow> c \<in> set (divide_from i lst n) \<Longrightarrow> length c \<le> n \<and> c \<noteq> []"
proof (induction i lst n rule: divide_from.induct)
  case (1 i lst n)
  show ?case
  proof (cases "length lst \<le> i")
    case True
    with 1(3) show ?thesis by (simp add: divide_from.simps)
  next
    case False
    from 1(3) False 1(2)
    have "c = take n (drop i lst) \<or> c \<in> set (divide_from (i + n) lst n)"
      by (subst (asm) divide_from.simps) simp
    then show ?thesis
    proof
      assume "c = take n (drop i lst)"
      with False 1(2) show ?thesis by auto
    next
      assume "c \<in> set (divide_from (i + n) lst n)"
      with 1 False show ?thesis by simp
    qed
  qed
qed

lemma full_chunks_divide_from:
  "0 < n \<Longrightarrow> c \<in> set (butlast (divide_from i lst n)) \<Longrightarrow> length c = n"
proof (induction i lst n rule: divide_from.induct)
  case (1 i lst n)
  show ?case
  proof (cases "length lst \<le> i")
    case True
    with 1(3) show ?thesis by (simp add: divide_from.simps)
  next
    case False
    note unfold = divide_from.simps [of i lst n]
    show ?thesis
    proof (cases "divide_from (i + n) lst n = []")
      case True
      with 1(3) False 1(2) show ?thesis by (simp add: unfold)
    next
      case nonempty: False
      then have "i + n < length lst"
        by (subst (asm) divide_from.simps) (simp split: if_splits)
      with 1(3) False 1(2) nonempty
      have "c = take n (drop i lst) \<and> length c = n \<or> c \<in> set (butlast (divide_from (i + n) lst n))"
        by (auto simp: unfold)
      then show ?thesis using 1 False by auto
    qed
  qed
qed

text \<open>
  C4: for every list and every \<^verbatim>\<open>n > 0\<close>, \<^verbatim>\<open>divide\<close> yields chunks whose concatenation in
  order is the list; no chunk is longer than \<^verbatim>\<open>n\<close> (none is empty), and every chunk but
  the last has exactly \<^verbatim>\<open>n\<close> elements.
\<close>

theorem divide_concat_and_bounds:
  assumes "0 < n"
  shows "\<exists>chunks. divide_list lst n = Inr chunks
           \<and> concat chunks = lst
           \<and> (\<forall>c \<in> set chunks. length c \<le> nat n \<and> c \<noteq> [])
           \<and> (\<forall>c \<in> set (butlast chunks). length c = nat n)"
proof -
  from assms have n: "0 < nat n" by simp
  have "divide_list lst n = Inr (divide_from 0 lst (nat n))"
    using assms by (simp add: divide_list_def)
  moreover have "concat (divide_from 0 lst (nat n)) = lst"
    using concat_divide_from [OF n, of 0 lst] by simp
  moreover have "\<forall>c \<in> set (divide_from 0 lst (nat n)). length c \<le> nat n \<and> c \<noteq> []"
    using chunks_divide_from [OF n] by blast
  moreover have "\<forall>c \<in> set (butlast (divide_from 0 lst (nat n))). length c = nat n"
    using full_chunks_divide_from [OF n] by blast
  ultimately show ?thesis by blast
qed

lemma divide_five_by_two:
  "divide_list [1, 2, 3, 4, 5 :: nat] 2 = Inr [[1, 2], [3, 4], [5]]"
  by (simp add: divide_list_def divide_from.simps)

theorem divide_concat_and_bounds_witness:
  "(0::int) < 2 \<and> divide_list [1, 2, 3, 4, 5 :: nat] 2 = Inr [[1, 2], [3, 4], [5]]
   \<and> concat [[1, 2], [3, 4], [5 :: nat]] = [1, 2, 3, 4, 5]"
proof -
  have h: "(0::int) < 2" by simp
  from divide_concat_and_bounds [OF h, of "[1, 2, 3, 4, 5 :: nat]"]
  obtain chunks where c: "divide_list [1, 2, 3, 4, 5 :: nat] 2 = Inr chunks"
    "concat chunks = [1, 2, 3, 4, 5]" by blast
  from c(1) divide_five_by_two have "chunks = [[1, 2], [3, 4], [5]]" by simp
  with c h show ?thesis by simp
qed

section \<open>Decimal numerals\<close>

lemma digit_char:
  assumes "d < 10"
  shows "is_digit (char_of (48 + d :: nat))" and "digit_val (char_of (48 + d :: nat)) = int d"
  using assms by (simp_all add: is_digit_def digit_val_def)

lemma is_digit_props:
  assumes "is_digit c"
  shows "\<not> is_space c" "c \<noteq> CHR ''_''" "c \<noteq> CHR ''-''" "c \<noteq> CHR ''+''" "c \<noteq> CHR ''>''"
  using assms by (auto simp: is_digit_def is_space_def)

lemma is_digit_ascii: "is_digit c \<Longrightarrow> (of_char c :: nat) < 128"
  by (simp add: is_digit_def)

lemma digits_ascii: "\<forall>c \<in> set s. is_digit c \<Longrightarrow> is_ascii s"
  by (simp add: is_ascii_def list_all_iff is_digit_ascii)

lemma digits_nat_nonempty: "digits_nat n \<noteq> []"
  by (subst digits_nat.simps) simp

lemma digits_nat_digits: "c \<in> set (digits_nat n) \<Longrightarrow> is_digit c"
proof (induction n arbitrary: c rule: digits_nat.induct)
  case (1 n)
  show ?case
  proof (cases "n < 10")
    case True
    with 1(2) show ?thesis by (subst (asm) digits_nat.simps) (simp add: digit_char)
  next
    case False
    with 1(2) have "c \<in> set (digits_nat (n div 10)) \<or> c = char_of (48 + n mod 10)"
      by (subst (asm) digits_nat.simps) auto
    then show ?thesis using 1(1) False by (auto simp: digit_char)
  qed
qed

lemma digit_run_digits: "s \<noteq> [] \<Longrightarrow> \<forall>c \<in> set s. is_digit c \<Longrightarrow> digit_run s = Some s"
proof (induction s rule: digit_run.induct)
  case 1
  then show ?case by simp
next
  case (2 c)
  then show ?case by simp
next
  case (3 c d cs)
  from 3(4) have c: "is_digit c" and d: "is_digit d" by simp_all
  from d have "d \<noteq> CHR ''_''" by (rule is_digit_props)
  moreover from 3(4) have "digit_run (d # cs) = Some (d # cs)"
    using 3(2) [OF _ \<open>d \<noteq> CHR ''_''\<close>] c by simp
  ultimately show ?case using c by simp
qed

lemma int_of_digits_snoc: "int_of_digits (ds @ [c]) = 10 * int_of_digits ds + digit_val c"
  by (simp add: int_of_digits_def)

lemma int_of_digits_digits_nat: "int_of_digits (digits_nat n) = int n"
proof (induction n rule: digits_nat.induct)
  case (1 n)
  show ?case
  proof (cases "n < 10")
    case True
    then show ?thesis by (subst digits_nat.simps) (simp add: int_of_digits_def digit_char)
  next
    case False
    then have "int_of_digits (digits_nat n) = 10 * int (n div 10) + int (n mod 10)"
      using 1 by (subst digits_nat.simps) (simp add: int_of_digits_snoc digit_char)
    moreover have "int n = int (10 * (n div 10) + n mod 10)" by simp
    ultimately show ?thesis by (simp only: of_nat_add of_nat_mult of_nat_numeral)
  qed
qed

lemma strip_id: "s \<noteq> [] \<Longrightarrow> \<not> is_space (hd s) \<Longrightarrow> \<not> is_space (last s) \<Longrightarrow> strip s = s"
proof -
  assume a: "s \<noteq> []" "\<not> is_space (hd s)" "\<not> is_space (last s)"
  then have "dropWhile is_space s = s" by (cases s) auto
  moreover from a have "dropWhile is_space (rev s) = rev s" by (cases "rev s") (auto simp: hd_rev)
  ultimately show ?thesis by (simp add: strip_def)
qed

text \<open>The parser proper, on a string of ASCII digits that is already stripped.\<close>

lemma parse_digits:
  assumes "s \<noteq> []" "\<forall>c \<in> set s. is_digit c"
  shows "strip s = s" "hd s \<noteq> CHR ''-''" "hd s \<noteq> CHR ''+''" "digit_run s = Some s"
proof -
  from assms have "is_digit (hd s)" "is_digit (last s)" by auto
  then show "strip s = s" "hd s \<noteq> CHR ''-''" "hd s \<noteq> CHR ''+''"
    using assms(1) by (auto simp: strip_id is_digit_props)
  show "digit_run s = Some s" by (rule digit_run_digits [OF assms])
qed

lemma int_of_str_digits:
  assumes "s \<noteq> []" "\<forall>c \<in> set s. is_digit c"
  shows "int_of_str py s =
           (if over_limit py (length s) then Inl ValueError else Inr (int_of_digits s))"
  using assms parse_digits [OF assms] digits_ascii [OF assms(2)]
  by (simp add: int_of_str_def)

lemma int_of_str_non_ascii:
  assumes "\<not> is_ascii s" "to_ascii py s = d" "d \<noteq> []" "\<forall>c \<in> set d. is_digit c"
  shows "int_of_str py s =
           (if over_limit py (length d) then Inl ValueError else Inr (int_of_digits d))"
  using assms parse_digits [OF assms(3,4)]
  by (simp add: int_of_str_def)

lemma int_of_str_str_int:
  "int_of_str py (str_int i) =
     (if over_limit py (length (digits_nat (nat \<bar>i\<bar>))) then Inl ValueError else Inr i)"
proof (cases "i < 0")
  case False
  then have "str_int i = digits_nat (nat i)" "nat \<bar>i\<bar> = nat i" by (simp_all add: str_int_def)
  then show ?thesis using False
    by (simp add: int_of_str_digits digits_nat_nonempty digits_nat_digits int_of_digits_digits_nat)
next
  case True
  let ?d = "digits_nat (nat (- i))"
  have s: "str_int i = CHR ''-'' # ?d" "nat \<bar>i\<bar> = nat (- i)" using True by (simp_all add: str_int_def)
  have "is_digit (last ?d)" using digits_nat_nonempty digits_nat_digits last_in_set by blast
  then have "\<not> is_space (last (CHR ''-'' # ?d))" by (simp add: digits_nat_nonempty is_digit_props)
  moreover have "\<not> is_space CHR ''-''" by (simp add: is_space_def)
  ultimately have "strip (CHR ''-'' # ?d) = CHR ''-'' # ?d" by (simp add: strip_id)
  moreover have "is_ascii (CHR ''-'' # ?d)"
    using digits_ascii [of ?d] digits_nat_digits by (simp add: is_ascii_def)
  ultimately show ?thesis using True
    by (simp add: s int_of_str_def digit_run_digits digits_nat_nonempty digits_nat_digits
        int_of_digits_digits_nat)
qed

lemma str_int_one: "str_int i = ''1'' \<longleftrightarrow> i = 1"
proof
  assume a: "str_int i = ''1''"
  then have "\<not> i < 0" by (auto simp: str_int_def)
  with a have "digits_nat (nat i) = ''1''" by (simp add: str_int_def)
  then have "int_of_digits (digits_nat (nat i)) = int_of_digits ''1''" by simp
  then show "i = 1" using \<open>\<not> i < 0\<close>
    by (simp add: int_of_digits_digits_nat) (simp add: int_of_digits_def digit_val_def)
next
  have "str_int 1 = ''1''" by code_simp
  moreover assume "i = 1"
  ultimately show "str_int i = ''1''" by simp
qed

lemma str_int_not_gt: "str_int i \<noteq> ''>10''"
proof -
  have "hd (str_int i) = CHR ''-'' \<or> is_digit (hd (str_int i))"
    using digits_nat_nonempty digits_nat_digits hd_in_set by (auto simp: str_int_def)
  then show ?thesis by (auto simp: is_digit_def)
qed

text \<open>The numeral of an integer cell has at most 309 digits, so no limit applies to it.\<close>

lemma digits_nat_length: "0 < k \<Longrightarrow> n < 10 ^ k \<Longrightarrow> length (digits_nat n) \<le> k"
proof (induction n arbitrary: k rule: digits_nat.induct)
  case (1 n)
  show ?case
  proof (cases "n < 10")
    case True
    then show ?thesis using 1(2) by (subst digits_nat.simps) simp
  next
    case False
    with 1(2,3) have k: "1 < k" by (cases "k = 1") auto
    then obtain j where j: "k = Suc j" "0 < j" by (cases k) auto
    with 1(3) have "n div 10 < 10 ^ j" by (simp add: less_mult_imp_div_less mult.commute)
    from 1(1) [OF False j(2) this] show ?thesis
      using False j by (subst digits_nat.simps) simp
  qed
qed

lemma xl_int_digits: "length (digits_nat (nat \<bar>Rep_xl_int x\<bar>)) \<le> 309"
proof -
  have "\<bar>Rep_xl_int x\<bar> < 2 ^ 1024" using Rep_xl_int [of x] by simp
  also have "(2 :: int) ^ 1024 < 10 ^ 309" by simp
  finally have "nat \<bar>Rep_xl_int x\<bar> < 10 ^ 309"
    by (simp add: nat_less_iff)
  then show ?thesis by (intro digits_nat_length) simp_all
qed

lemma xl_int_within_limit: "\<not> over_limit py (length (digits_nat (nat \<bar>Rep_xl_int x\<bar>)))"
  using xl_int_digits [of x] by (simp add: over_limit_def)

lemma Rep_xl_int_numeral: "\<bar>i\<bar> < 2 ^ 1024 \<Longrightarrow> Rep_xl_int (Abs_xl_int i) = i"
  by (simp add: Abs_xl_int_inverse)

section \<open>The quantity block\<close>

lemma stock_of_count_str_int:
  "stock_of_count py (PStr (str_int i)) =
     (if i = 1 then Inr 0
      else if over_limit py (length (digits_nat (nat \<bar>i\<bar>))) then Inl ValueError
      else Inr i)"
  by (simp add: stock_of_count_def str_int_one str_int_not_gt int_of_str_str_int)

lemma stock_of_count_int:
  "stock_of_count py (PInt x) = Inr (if Rep_xl_int x = 1 then 0 else Rep_xl_int x)"
  by (simp add: stock_of_count_def str_int_one str_int_not_gt)

lemma stock_of_count_digits:
  assumes "s \<noteq> []" "\<forall>c \<in> set s. is_digit c" "s \<noteq> ''1''"
  shows "stock_of_count py (PStr s) =
           (if over_limit py (length s) then Inl ValueError else Inr (int_of_digits s))"
proof -
  from assms(1,2) have "is_digit (hd s)" by simp
  then have "s \<noteq> ''>10''" by (auto simp: is_digit_def)
  with assms(3) show ?thesis
    by (simp add: stock_of_count_def int_of_str_digits [OF assms(1,2)])
qed

lemma stock_of_count_non_ascii:
  assumes "\<not> is_ascii s" "to_ascii py s = d" "d \<noteq> []" "\<forall>c \<in> set d. is_digit c"
  shows "stock_of_count py (PStr s) =
           (if over_limit py (length d) then Inl ValueError else Inr (int_of_digits d))"
proof -
  from assms(1) have "s \<noteq> ''>10''" "s \<noteq> ''1''" by (auto simp: is_ascii_def)
  then show ?thesis by (simp add: stock_of_count_def int_of_str_non_ascii [OF assms])
qed

lemma stock_of_count_examples:
  "stock_of_count py (PStr ''>10'') = Inr 100" "stock_of_count py (PStr ''1'') = Inr 0"
  "stock_of_count py (PStr ''7'') = Inr 7" "stock_of_count py (PStr ''abc'') = Inl ValueError"
  "stock_of_count py (PStr '' 15 '') = Inr 15" "stock_of_count py (PStr ''-3'') = Inr (-3)"
  "stock_of_count py (PStr ''1_0'') = Inr 10" "stock_of_count py (PStr '''') = Inl ValueError"
  "stock_of_count py PNone = Inl TypeError"
  by (simp_all add: stock_of_count_def int_of_str_def strip_def is_space_def is_digit_def
      int_of_digits_def digit_val_def is_ascii_def over_limit_def)

section \<open>Properties of the offer reconciler\<close>

lemma zero_loop_eq: "zero_loop ids stocks = stocks @ map zero_entry ids"
  by (induction ids arbitrary: stocks) (auto simp: zero_entry_def)

lemma subseq_remove1: "subseq (remove1 x xs) xs"
  by (induction xs) auto

lemma stocks_loop_inv:
  "stocks_loop py F acc K = Inr (st, K') \<Longrightarrow>
     \<exists>M. st = acc @ M \<and> mset (map offer_id M) + mset K' = mset K
        \<and> subseq M (List.map_filter (stock_row py) F) \<and> subseq K' K"
proof (induction F arbitrary: acc K)
  case Nil
  then show ?case by (simp add: List.map_filter_simps)
next
  case (Cons w F)
  show ?case
  proof (cases "py_str (Kod w) \<in> set K")
    case False
    with Cons.prems have "stocks_loop py F acc K = Inr (st, K')" by simp
    from Cons.IH [OF this] obtain M where M: "st = acc @ M"
      "mset (map offer_id M) + mset K' = mset K"
      "subseq M (List.map_filter (stock_row py) F)" "subseq K' K" by blast
    have "subseq M (List.map_filter (stock_row py) (w # F))"
      using M(3) by (cases "stock_row py w") (auto simp: List.map_filter_simps)
    with M show ?thesis by blast
  next
    case True
    with Cons.prems obtain n where n: "stock_of_count py (Kolichestvo w) = Inr n"
      and run: "stocks_loop py F (acc @ [\<lparr>offer_id = py_str (Kod w), stock = n\<rparr>])
                  (remove1 (py_str (Kod w)) K) = Inr (st, K')"
      by (auto split: sum.splits)
    let ?e = "\<lparr>offer_id = py_str (Kod w), stock = n\<rparr>"
    from Cons.IH [OF run] obtain M where M: "st = (acc @ [?e]) @ M"
      "mset (map offer_id M) + mset K' = mset (remove1 (py_str (Kod w)) K)"
      "subseq M (List.map_filter (stock_row py) F)" "subseq K' (remove1 (py_str (Kod w)) K)"
      by blast
    have 1: "st = acc @ (?e # M)" using M(1) by simp
    have 2: "mset (map offer_id (?e # M)) + mset K' = mset K"
      using M(2) True by simp
    have 3: "subseq (?e # M) (List.map_filter (stock_row py) (w # F))"
      using M(3) n by (simp add: List.map_filter_simps stock_row_def code_of_def)
    have 4: "subseq K' K"
      by (rule subseq_order.order_trans [OF M(4) subseq_remove1])
    from 1 2 3 4 show ?thesis by blast
  qed
qed

lemma stocks_loop_keeps:
  "stocks_loop py F acc K = Inr (st, K') \<Longrightarrow> k \<in> set K \<Longrightarrow> k \<notin> codes F \<Longrightarrow> k \<in> set K'"
  by (induction F arbitrary: acc K) (auto simp: codes_def code_of_def split: if_splits sum.splits)

lemma remove1_distinct_filter: "distinct K \<Longrightarrow> remove1 c K = filter (\<lambda>k. k \<noteq> c) K"
proof -
  assume "distinct K"
  then have "remove1 c K = filter (\<lambda>k. c \<noteq> k) K"
    by (simp add: distinct_remove1_removeAll removeAll_filter_not_eq)
  also have "\<dots> = filter (\<lambda>k. k \<noteq> c) K"
    by (rule filter_cong) auto
  finally show ?thesis .
qed

lemma stocks_loop_distinct:
  "stocks_loop py F acc K = Inr (st, K') \<Longrightarrow> distinct K \<Longrightarrow> K' = filter (\<lambda>k. k \<notin> codes F) K"
proof (induction F arbitrary: acc K)
  case Nil
  then show ?case by (simp add: codes_def)
next
  case (Cons w F)
  show ?case
  proof (cases "py_str (Kod w) \<in> set K")
    case False
    with Cons.prems have "stocks_loop py F acc K = Inr (st, K')" by simp
    from Cons.IH [OF this Cons.prems(2)] have "K' = filter (\<lambda>k. k \<notin> codes F) K" .
    also have "\<dots> = filter (\<lambda>k. k \<notin> codes (w # F)) K"
      using False by (intro filter_cong) (auto simp: codes_def code_of_def)
    finally show ?thesis .
  next
    case True
    with Cons.prems obtain n where
      run: "stocks_loop py F (acc @ [\<lparr>offer_id = py_str (Kod w), stock = n\<rparr>])
              (remove1 (py_str (Kod w)) K) = Inr (st, K')"
      by (auto split: sum.splits)
    have d: "distinct (remove1 (py_str (Kod w)) K)" using Cons.prems(2) by simp
    from Cons.IH [OF run d]
    have "K' = filter (\<lambda>k. k \<notin> codes F) (remove1 (py_str (Kod w)) K)" .
    then show ?thesis
      unfolding remove1_distinct_filter [OF Cons.prems(2)]
      by (auto simp: codes_def code_of_def intro: filter_cong)
  qed
qed

lemma stocks_loop_append:
  "stocks_loop py (F1 @ F2) acc K =
     (case stocks_loop py F1 acc K of Inl e \<Rightarrow> Inl e | Inr (st, K1) \<Rightarrow> stocks_loop py F2 st K1)"
  by (induction F1 arbitrary: acc K) (auto split: sum.splits)

text \<open>The market variant builds the same list in its own shape.\<close>

lemma market_stocks_loop_rel:
  "market_stocks_loop py wid date F (map (to_sku wid date) acc) K =
     (case stocks_loop py F acc K of
        Inl e \<Rightarrow> Inl e
      | Inr (st, K') \<Rightarrow> Inr (map (to_sku wid date) st, K'))"
proof (induction F arbitrary: acc K)
  case Nil
  then show ?case by simp
next
  case (Cons w F)
  show ?case
  proof (cases "py_str (Kod w) \<in> set K")
    case False
    then show ?thesis using Cons.IH [of acc K] by simp
  next
    case True
    show ?thesis
    proof (cases "stock_of_count py (Kolichestvo w)")
      case (Inl e)
      with True show ?thesis by simp
    next
      case (Inr n)
      let ?e = "\<lparr>offer_id = py_str (Kod w), stock = n\<rparr>"
      have "map (to_sku wid date) acc @ [sku_of wid date (py_str (Kod w)) n]
            = map (to_sku wid date) (acc @ [?e])"
        by (simp add: to_sku_def)
      with True Inr Cons.IH [of "acc @ [?e]" "remove1 (py_str (Kod w)) K"]
      show ?thesis by simp
    qed
  qed
qed

lemma market_zero_loop_rel:
  "market_zero_loop wid date ids (map (to_sku wid date) st) = map (to_sku wid date) (zero_loop ids st)"
proof (induction ids arbitrary: st)
  case Nil
  then show ?case by simp
next
  case (Cons k ids)
  have "map (to_sku wid date) st @ [sku_of wid date k 0]
        = map (to_sku wid date) (st @ [\<lparr>offer_id = k, stock = 0\<rparr>])"
    by (simp add: to_sku_def)
  with Cons.IH [of "st @ [\<lparr>offer_id = k, stock = 0\<rparr>]"] show ?case by simp
qed

lemma market_create_stocks_rel:
  "market_create_stocks py date F K wid =
     (case create_stocks py F K of
        Inl e \<Rightarrow> Inl e
      | Inr (st, K') \<Rightarrow> Inr (map (to_sku wid date) st, K'))"
  using market_stocks_loop_rel [of py wid date F "[]" K]
  by (auto simp: market_create_stocks_def create_stocks_def market_zero_loop_rel split: sum.splits)

lemma sku_to_sku: "map sku (map (to_sku wid date) st) = map offer_id st"
  by (simp add: to_sku_def sku_of_def)

lemma market_create_stocks_Inr:
  "market_create_stocks py date F K wid = Inr (skus, K') \<Longrightarrow>
     \<exists>st. create_stocks py F K = Inr (st, K') \<and> skus = map (to_sku wid date) st"
  by (auto simp: market_create_stocks_rel split: sum.splits)

lemma create_stocks_shape:
  assumes "create_stocks py F K = Inr (stocks, K')"
  shows "\<exists>M. stocks = M @ map zero_entry K' \<and> mset (map offer_id M) + mset K' = mset K
           \<and> subseq M (List.map_filter (stock_row py) F) \<and> subseq K' K"
proof -
  from assms obtain st where st: "stocks_loop py F [] K = Inr (st, K')"
    and stocks: "stocks = zero_loop K' st"
    by (auto simp: create_stocks_def split: sum.splits)
  from stocks_loop_inv [OF st] stocks show ?thesis by (auto simp: zero_loop_eq)
qed

lemma create_stocks_ids:
  assumes "create_stocks py F K = Inr (stocks, K')"
  shows "mset (map offer_id stocks) = mset K"
proof -
  from create_stocks_shape [OF assms] obtain M where
    "stocks = M @ map zero_entry K'" "mset (map offer_id M) + mset K' = mset K" by blast
  moreover have "map offer_id (map zero_entry K') = K'"
    by (induction K') (auto simp: zero_entry_def)
  ultimately show ?thesis by simp
qed

text \<open>When the quantity of every row normalises, both loops run to their end.\<close>

lemma stocks_loop_returns:
  "\<forall>w \<in> set F. \<exists>n. stock_of_count py (Kolichestvo w) = Inr n \<Longrightarrow>
     \<exists>st K'. stocks_loop py F acc K = Inr (st, K')"
proof (induction F arbitrary: acc K)
  case Nil
  then show ?case by simp
next
  case (Cons w F)
  then obtain n where n: "stock_of_count py (Kolichestvo w) = Inr n" by auto
  from Cons have "\<And>acc K. \<exists>st K'. stocks_loop py F acc K = Inr (st, K')" by simp
  with n show ?case by simp
qed

lemma create_stocks_returns:
  "\<forall>w \<in> set F. \<exists>n. stock_of_count py (Kolichestvo w) = Inr n \<Longrightarrow>
     \<exists>stocks K'. create_stocks py F K = Inr (stocks, K')"
proof -
  assume "\<forall>w \<in> set F. \<exists>n. stock_of_count py (Kolichestvo w) = Inr n"
  from stocks_loop_returns [OF this, of "[]" K] obtain st K' where
    "stocks_loop py F [] K = Inr (st, K')" by blast
  then show ?thesis by (simp add: create_stocks_def)
qed

lemma create_stocks_distinct_ids:
  assumes "distinct K" "create_stocks py F K = Inr (stocks, K')"
  shows "distinct (map offer_id stocks)" "set (map offer_id stocks) = set K"
proof -
  have m: "mset (map offer_id stocks) = mset K" by (rule create_stocks_ids [OF assms(2)])
  from assms(1) have "distinct (map offer_id stocks)"
    by (metis m distinct_count_atmost_1 set_mset_mset)
  then show "distinct (map offer_id stocks)" .
  from m show "set (map offer_id stocks) = set K" by (rule mset_eq_setD)
qed

lemma str_int_12: "str_int (Rep_xl_int (Abs_xl_int 12)) = ''12''"
proof -
  have "str_int 12 = ''12''" by code_simp
  then show ?thesis by (simp add: Rep_xl_int_numeral)
qed

lemma str_int_1: "str_int (Rep_xl_int (Abs_xl_int 1)) = ''1''"
proof -
  have "str_int 1 = ''1''" by code_simp
  then show ?thesis by (simp add: Rep_xl_int_numeral)
qed

lemmas eval_simps =
  feed_example_def stock_of_count_def int_of_str_def strip_def is_space_def is_digit_def
  int_of_digits_def digit_val_def is_ascii_def over_limit_def str_int_12 str_int_1

lemma create_stocks_example:
  "create_stocks py feed_example [''C'', ''B'', ''12'', ''A''] =
     Inr ([\<lparr>offer_id = ''A'', stock = 5\<rparr>, \<lparr>offer_id = ''12'', stock = 0\<rparr>,
           \<lparr>offer_id = ''B'', stock = 100\<rparr>, \<lparr>offer_id = ''C'', stock = 0\<rparr>], [''C''])"
  by (simp add: create_stocks_def eval_simps)

lemma market_create_stocks_example:
  "market_create_stocks py ''d'' feed_example [''C'', ''B'', ''12'', ''A''] ''w'' =
     Inr ([\<lparr>sku = ''A'', warehouseId = ''w'',
              items = [\<lparr>item_count = 5, item_type = ''FIT'', updatedAt = ''d''\<rparr>]\<rparr>,
           \<lparr>sku = ''12'', warehouseId = ''w'',
              items = [\<lparr>item_count = 0, item_type = ''FIT'', updatedAt = ''d''\<rparr>]\<rparr>,
           \<lparr>sku = ''B'', warehouseId = ''w'',
              items = [\<lparr>item_count = 100, item_type = ''FIT'', updatedAt = ''d''\<rparr>]\<rparr>,
           \<lparr>sku = ''C'', warehouseId = ''w'',
              items = [\<lparr>item_count = 0, item_type = ''FIT'', updatedAt = ''d''\<rparr>]\<rparr>], [''C''])"
  by (simp add: market_create_stocks_def sku_of_def eval_simps)

text \<open>
  C1: for a duplicate-free list of known ids, the list \<^verbatim>\<open>create_stocks\<close> returns (in the
  seller and in the market variant) has every known id exactly once as its
  \<^verbatim>\<open>offer_id\<close>/\<^verbatim>\<open>sku\<close> and no other id, whatever the feed holds.
\<close>

theorem create_stocks_covers_known_ids:
  assumes "distinct K"
  shows "(create_stocks py F K = Inr (stocks, K') \<longrightarrow>
            mset (map offer_id stocks) = mset K
            \<and> distinct (map offer_id stocks) \<and> set (map offer_id stocks) = set K)
       \<and> (market_create_stocks py date F K wid = Inr (skus, K'') \<longrightarrow>
            mset (map sku skus) = mset K
            \<and> distinct (map sku skus) \<and> set (map sku skus) = set K)"
proof (intro conjI impI)
  assume r: "create_stocks py F K = Inr (stocks, K')"
  show "mset (map offer_id stocks) = mset K" by (rule create_stocks_ids [OF r])
  show "distinct (map offer_id stocks)" by (rule create_stocks_distinct_ids(1) [OF assms r])
  show "set (map offer_id stocks) = set K" by (rule create_stocks_distinct_ids(2) [OF assms r])
next
  assume "market_create_stocks py date F K wid = Inr (skus, K'')"
  from market_create_stocks_Inr [OF this] obtain st where
    r: "create_stocks py F K = Inr (st, K'')" and "skus = map (to_sku wid date) st"
    by blast
  then have s: "map sku skus = map offer_id st" by (simp only: sku_to_sku)
  show "mset (map sku skus) = mset K" unfolding s by (rule create_stocks_ids [OF r])
  show "distinct (map sku skus)" unfolding s by (rule create_stocks_distinct_ids(1) [OF assms r])
  show "set (map sku skus) = set K" unfolding s by (rule create_stocks_distinct_ids(2) [OF assms r])
qed

theorem create_stocks_covers_known_ids_witness:
  "distinct [''C'', ''B'', ''12'', ''A'']
   \<and> create_stocks ascii_interpreter feed_example [''C'', ''B'', ''12'', ''A''] =
       Inr ([\<lparr>offer_id = ''A'', stock = 5\<rparr>, \<lparr>offer_id = ''12'', stock = 0\<rparr>,
             \<lparr>offer_id = ''B'', stock = 100\<rparr>, \<lparr>offer_id = ''C'', stock = 0\<rparr>], [''C''])
   \<and> mset (map offer_id [\<lparr>offer_id = ''A'', stock = 5\<rparr>, \<lparr>offer_id = ''12'', stock = 0\<rparr>,
             \<lparr>offer_id = ''B'', stock = 100\<rparr>, \<lparr>offer_id = ''C'', stock = 0\<rparr>])
       = mset [''C'', ''B'', ''12'', ''A'']
   \<and> market_create_stocks ascii_interpreter ''d'' feed_example [''C'', ''B'', ''12'', ''A''] ''w'' =
       Inr ([\<lparr>sku = ''A'', warehouseId = ''w'',
              items = [\<lparr>item_count = 5, item_type = ''FIT'', updatedAt = ''d''\<rparr>]\<rparr>,
           \<lparr>sku = ''12'', warehouseId = ''w'',
              items = [\<lparr>item_count = 0, item_type = ''FIT'', updatedAt = ''d''\<rparr>]\<rparr>,
           \<lparr>sku = ''B'', warehouseId = ''w'',
              items = [\<lparr>item_count = 100, item_type = ''FIT'', updatedAt = ''d''\<rparr>]\<rparr>,
           \<lparr>sku = ''C'', warehouseId = ''w'',
              items = [\<lparr>item_count = 0, item_type = ''FIT'', updatedAt = ''d''\<rparr>]\<rparr>], [''C''])
   \<and> mset (map sku [\<lparr>sku = ''A'', warehouseId = ''w'',
              items = [\<lparr>item_count = 5, item_type = ''FIT'', updatedAt = ''d''\<rparr>]\<rparr>,
           \<lparr>sku = ''12'', warehouseId = ''w'',
              items = [\<lparr>item_count = 0, item_type = ''FIT'', updatedAt = ''d''\<rparr>]\<rparr>,
           \<lparr>sku = ''B'', warehouseId = ''w'',
              items = [\<lparr>item_count = 100, item_type = ''FIT'', updatedAt = ''d''\<rparr>]\<rparr>,
           \<lparr>sku = ''C'', warehouseId = ''w'',
              items = [\<lparr>item_count = 0, item_type = ''FIT'', updatedAt = ''d''\<rparr>]\<rparr>])
       = mset [''C'', ''B'', ''12'', ''A'']"
proof -
  have d: "distinct [''C'', ''B'', ''12'', ''A'']" by simp
  note t = create_stocks_covers_known_ids [OF d, of ascii_interpreter feed_example _ "[''C'']" "''d''" "''w''" _ "[''C'']"]
  from t create_stocks_example have
    "mset (map offer_id [\<lparr>offer_id = ''A'', stock = 5\<rparr>, \<lparr>offer_id = ''12'', stock = 0\<rparr>,
             \<lparr>offer_id = ''B'', stock = 100\<rparr>, \<lparr>offer_id = ''C'', stock = 0\<rparr>])
       = mset [''C'', ''B'', ''12'', ''A'']" by blast
  moreover from t market_create_stocks_example have
    "mset (map sku [\<lparr>sku = ''A'', warehouseId = ''w'',
              items = [\<lparr>item_count = 5, item_type = ''FIT'', updatedAt = ''d''\<rparr>]\<rparr>,
           \<lparr>sku = ''12'', warehouseId = ''w'',
              items = [\<lparr>item_count = 0, item_type = ''FIT'', updatedAt = ''d''\<rparr>]\<rparr>,
           \<lparr>sku = ''B'', warehouseId = ''w'',
              items = [\<lparr>item_count = 100, item_type = ''FIT'', updatedAt = ''d''\<rparr>]\<rparr>,
           \<lparr>sku = ''C'', warehouseId = ''w'',
              items = [\<lparr>item_count = 0, item_type = ''FIT'', updatedAt = ''d''\<rparr>]\<rparr>])
       = mset [''C'', ''B'', ''12'', ''A'']" by blast
  ultimately show ?thesis using d create_stocks_example market_create_stocks_example by blast
qed

lemma to_sku_fields:
  "to_sku wid date e =
     \<lparr>sku = offer_id e, warehouseId = wid,
      items = [\<lparr>item_count = stock e, item_type = ''FIT'', updatedAt = date\<rparr>]\<rparr>"
  by (simp add: to_sku_def sku_of_def)

lemma zero_entry_to_sku:
  "to_sku wid date (zero_entry k) =
     \<lparr>sku = k, warehouseId = wid,
      items = [\<lparr>item_count = 0, item_type = ''FIT'', updatedAt = date\<rparr>]\<rparr>"
  by (simp add: to_sku_fields zero_entry_def)

lemma create_stocks_order:
  assumes "create_stocks py F K = Inr (stocks, K')"
  shows "\<exists>M. stocks = M @ map zero_entry K' \<and> subseq M (List.map_filter (stock_row py) F)
           \<and> set (map offer_id M) \<subseteq> set K"
    and "subseq K' K"
    and "k \<in> set K \<Longrightarrow> k \<notin> codes F \<Longrightarrow> k \<in> set K' \<and> zero_entry k \<in> set stocks"
    and "distinct K \<Longrightarrow> K' = filter (\<lambda>k. k \<notin> codes F) K"
proof -
  from assms obtain st where st: "stocks_loop py F [] K = Inr (st, K')"
    and stocks: "stocks = st @ map zero_entry K'"
    by (auto simp: create_stocks_def zero_loop_eq split: sum.splits)
  from stocks_loop_inv [OF st] obtain M where M: "st = M"
    "mset (map offer_id M) + mset K' = mset K" "subseq M (List.map_filter (stock_row py) F)"
    "subseq K' K" by auto
  from M(2) have "set_mset (mset (map offer_id M)) \<subseteq> set_mset (mset K)"
    by (metis mset_subset_eq_add_left set_mset_mono)
  then have "set (map offer_id M) \<subseteq> set K" by simp
  with M stocks show "\<exists>M. stocks = M @ map zero_entry K' \<and> subseq M (List.map_filter (stock_row py) F)
           \<and> set (map offer_id M) \<subseteq> set K" by blast
  show "subseq K' K" by (rule M(4))
  show "k \<in> set K' \<and> zero_entry k \<in> set stocks" if "k \<in> set K" "k \<notin> codes F"
    using stocks_loop_keeps [OF st that] stocks by simp
  show "K' = filter (\<lambda>k. k \<notin> codes F) K" if "distinct K"
    by (rule stocks_loop_distinct [OF st that])
qed

lemma codes_feed_example: "codes feed_example = {''A'', ''Z'', ''12'', ''B''}"
  by (auto simp: codes_def code_of_def feed_example_def str_int_12)

text \<open>
  C5: every known id that is the code of no feed row gets an entry with quantity 0; the
  returned list is the entries of matched feed rows, in feed order, followed by the zero
  entries of the ids left in \<^verbatim>\<open>offer_ids\<close>, in the order they have there (which is their
  order in the original list). Both variants; for market.py the entries are given by
  their fields \<^verbatim>\<open>sku\<close>, \<^verbatim>\<open>warehouseId\<close> and \<^verbatim>\<open>items\<close>, the quantity being the \<^verbatim>\<open>count\<close> of
  the one item.
\<close>

theorem create_stocks_defaults_and_order:
  "(create_stocks py F K = Inr (stocks, K') \<longrightarrow>
      (\<exists>M. stocks = M @ map (\<lambda>k. \<lparr>offer_id = k, stock = 0\<rparr>) K'
           \<and> subseq M (List.map_filter (stock_row py) F)
           \<and> set (map offer_id M) \<subseteq> set K)
      \<and> subseq K' K
      \<and> (\<forall>k \<in> set K. k \<notin> codes F \<longrightarrow>
            k \<in> set K' \<and> zero_entry k \<in> set stocks \<and> \<lparr>offer_id = k, stock = 0\<rparr> \<in> set stocks)
      \<and> (distinct K \<longrightarrow> K' = filter (\<lambda>k. k \<notin> codes F) K))
   \<and> (market_create_stocks py date F K wid = Inr (skus, K'') \<longrightarrow>
      (\<exists>M. skus =
             map (\<lambda>e. \<lparr>sku = offer_id e, warehouseId = wid,
                        items = [\<lparr>item_count = stock e, item_type = ''FIT'',
                                  updatedAt = date\<rparr>]\<rparr>) M
             @ map (\<lambda>k. \<lparr>sku = k, warehouseId = wid,
                          items = [\<lparr>item_count = 0, item_type = ''FIT'',
                                    updatedAt = date\<rparr>]\<rparr>) K''
           \<and> subseq M (List.map_filter (stock_row py) F)
           \<and> set (map offer_id M) \<subseteq> set K)
      \<and> map sku (drop (length skus - length K'') skus) = K''
      \<and> map (\<lambda>e. map item_count (items e)) (drop (length skus - length K'') skus)
          = map (\<lambda>k. [0]) K''
      \<and> subseq K'' K
      \<and> (\<forall>k \<in> set K. k \<notin> codes F \<longrightarrow>
            k \<in> set K''
            \<and> \<lparr>sku = k, warehouseId = wid,
                items = [\<lparr>item_count = 0, item_type = ''FIT'', updatedAt = date\<rparr>]\<rparr>
                \<in> set skus)
      \<and> (distinct K \<longrightarrow> K'' = filter (\<lambda>k. k \<notin> codes F) K))"
proof (intro conjI impI ballI)
  assume r: "create_stocks py F K = Inr (stocks, K')"
  from create_stocks_order(1) [OF r]
  show "\<exists>M. stocks = M @ map (\<lambda>k. \<lparr>offer_id = k, stock = 0\<rparr>) K'
           \<and> subseq M (List.map_filter (stock_row py) F)
           \<and> set (map offer_id M) \<subseteq> set K"
    by (simp add: zero_entry_def [abs_def])
  show "subseq K' K" by (rule create_stocks_order(2) [OF r])
  show "k \<in> set K'" if "k \<in> set K" "k \<notin> codes F" for k
    using create_stocks_order(3) [OF r that] by simp
  show "zero_entry k \<in> set stocks" if "k \<in> set K" "k \<notin> codes F" for k
    using create_stocks_order(3) [OF r that] by simp
  show "\<lparr>offer_id = k, stock = 0\<rparr> \<in> set stocks" if "k \<in> set K" "k \<notin> codes F" for k
    using create_stocks_order(3) [OF r that] by (simp add: zero_entry_def)
  show "K' = filter (\<lambda>k. k \<notin> codes F) K" if "distinct K"
    by (rule create_stocks_order(4) [OF r that])
next
  assume "market_create_stocks py date F K wid = Inr (skus, K'')"
  from market_create_stocks_Inr [OF this] obtain st where
    r: "create_stocks py F K = Inr (st, K'')" and skus: "skus = map (to_sku wid date) st"
    by blast
  from create_stocks_order(1) [OF r] obtain M where M: "st = M @ map zero_entry K''"
    "subseq M (List.map_filter (stock_row py) F)" "set (map offer_id M) \<subseteq> set K" by blast
  have shape: "skus =
             map (\<lambda>e. \<lparr>sku = offer_id e, warehouseId = wid,
                        items = [\<lparr>item_count = stock e, item_type = ''FIT'',
                                  updatedAt = date\<rparr>]\<rparr>) M
             @ map (\<lambda>k. \<lparr>sku = k, warehouseId = wid,
                          items = [\<lparr>item_count = 0, item_type = ''FIT'',
                                    updatedAt = date\<rparr>]\<rparr>) K''"
    unfolding skus M(1) by (simp add: to_sku_fields [abs_def] zero_entry_def)
  with M show "\<exists>M. skus =
             map (\<lambda>e. \<lparr>sku = offer_id e, warehouseId = wid,
                        items = [\<lparr>item_count = stock e, item_type = ''FIT'',
                                  updatedAt = date\<rparr>]\<rparr>) M
             @ map (\<lambda>k. \<lparr>sku = k, warehouseId = wid,
                          items = [\<lparr>item_count = 0, item_type = ''FIT'',
                                    updatedAt = date\<rparr>]\<rparr>) K''
           \<and> subseq M (List.map_filter (stock_row py) F)
           \<and> set (map offer_id M) \<subseteq> set K" by blast
  from shape show "map sku (drop (length skus - length K'') skus) = K''"
    by (simp add: comp_def)
  from shape show "map (\<lambda>e. map item_count (items e)) (drop (length skus - length K'') skus)
          = map (\<lambda>k. [0]) K''"
    by (simp add: comp_def)
  show "subseq K'' K" by (rule create_stocks_order(2) [OF r])
  show "k \<in> set K''" if "k \<in> set K" "k \<notin> codes F" for k
    using create_stocks_order(3) [OF r that] by simp
  show "\<lparr>sku = k, warehouseId = wid,
          items = [\<lparr>item_count = 0, item_type = ''FIT'', updatedAt = date\<rparr>]\<rparr> \<in> set skus"
    if "k \<in> set K" "k \<notin> codes F" for k
  proof -
    from create_stocks_order(3) [OF r that] have "zero_entry k \<in> set st" by simp
    then have "to_sku wid date (zero_entry k) \<in> set skus" unfolding skus by simp
    then show ?thesis by (simp only: zero_entry_to_sku)
  qed
  show "K'' = filter (\<lambda>k. k \<notin> codes F) K" if "distinct K"
    by (rule create_stocks_order(4) [OF r that])
qed

theorem create_stocks_defaults_and_order_witness:
  "create_stocks ascii_interpreter feed_example [''C'', ''B'', ''12'', ''A''] =
     Inr ([\<lparr>offer_id = ''A'', stock = 5\<rparr>, \<lparr>offer_id = ''12'', stock = 0\<rparr>,
           \<lparr>offer_id = ''B'', stock = 100\<rparr>, \<lparr>offer_id = ''C'', stock = 0\<rparr>], [''C''])
   \<and> market_create_stocks ascii_interpreter ''d'' feed_example [''C'', ''B'', ''12'', ''A''] ''w'' =
       Inr ([\<lparr>sku = ''A'', warehouseId = ''w'',
              items = [\<lparr>item_count = 5, item_type = ''FIT'', updatedAt = ''d''\<rparr>]\<rparr>,
           \<lparr>sku = ''12'', warehouseId = ''w'',
              items = [\<lparr>item_count = 0, item_type = ''FIT'', updatedAt = ''d''\<rparr>]\<rparr>,
           \<lparr>sku = ''B'', warehouseId = ''w'',
              items = [\<lparr>item_count = 100, item_type = ''FIT'', updatedAt = ''d''\<rparr>]\<rparr>,
           \<lparr>sku = ''C'', warehouseId = ''w'',
              items = [\<lparr>item_count = 0, item_type = ''FIT'', updatedAt = ''d''\<rparr>]\<rparr>], [''C''])
   \<and> ''C'' \<in> set [''C'', ''B'', ''12'', ''A''] \<and> ''C'' \<notin> codes feed_example
   \<and> distinct [''C'', ''B'', ''12'', ''A'']
   \<and> \<lparr>offer_id = ''C'', stock = 0\<rparr>
       \<in> set [\<lparr>offer_id = ''A'', stock = 5\<rparr>, \<lparr>offer_id = ''12'', stock = 0\<rparr>,
           \<lparr>offer_id = ''B'', stock = 100\<rparr>, \<lparr>offer_id = ''C'', stock = 0\<rparr>]
   \<and> \<lparr>sku = ''C'', warehouseId = ''w'',
        items = [\<lparr>item_count = 0, item_type = ''FIT'', updatedAt = ''d''\<rparr>]\<rparr>
       \<in> set [\<lparr>sku = ''A'', warehouseId = ''w'',
              items = [\<lparr>item_count = 5, item_type = ''FIT'', updatedAt = ''d''\<rparr>]\<rparr>,
           \<lparr>sku = ''12'', warehouseId = ''w'',
              items = [\<lparr>item_count = 0, item_type = ''FIT'', updatedAt = ''d''\<rparr>]\<rparr>,
           \<lparr>sku = ''B'', warehouseId = ''w'',
              items = [\<lparr>item_count = 100, item_type = ''FIT'', updatedAt = ''d''\<rparr>]\<rparr>,
           \<lparr>sku = ''C'', warehouseId = ''w'',
              items = [\<lparr>item_count = 0, item_type = ''FIT'', updatedAt = ''d''\<rparr>]\<rparr>]
   \<and> [''C''] = filter (\<lambda>k. k \<notin> codes feed_example) [''C'', ''B'', ''12'', ''A'']"
proof -
  have k: "''C'' \<in> set [''C'', ''B'', ''12'', ''A'']" and c: "''C'' \<notin> codes feed_example"
    and d: "distinct [''C'', ''B'', ''12'', ''A'']"
    by (simp_all add: codes_feed_example)
  note t = create_stocks_defaults_and_order
    [where py = ascii_interpreter and F = feed_example and K = "[''C'', ''B'', ''12'', ''A'']"
       and K' = "[''C'']" and date = "''d''" and wid = "''w''" and K'' = "[''C'']"]
  note s = t [THEN conjunct1, THEN mp, OF create_stocks_example]
  note m = t [THEN conjunct2, THEN mp, OF market_create_stocks_example]
  from s k c d
  have 1: "\<lparr>offer_id = ''C'', stock = 0\<rparr>
       \<in> set [\<lparr>offer_id = ''A'', stock = 5\<rparr>, \<lparr>offer_id = ''12'', stock = 0\<rparr>,
           \<lparr>offer_id = ''B'', stock = 100\<rparr>, \<lparr>offer_id = ''C'', stock = 0\<rparr>]"
    and 2: "[''C''] = filter (\<lambda>k. k \<notin> codes feed_example) [''C'', ''B'', ''12'', ''A'']"
    by blast+
  from m k c
  have 3: "\<lparr>sku = ''C'', warehouseId = ''w'',
        items = [\<lparr>item_count = 0, item_type = ''FIT'', updatedAt = ''d''\<rparr>]\<rparr>
       \<in> set [\<lparr>sku = ''A'', warehouseId = ''w'',
              items = [\<lparr>item_count = 5, item_type = ''FIT'', updatedAt = ''d''\<rparr>]\<rparr>,
           \<lparr>sku = ''12'', warehouseId = ''w'',
              items = [\<lparr>item_count = 0, item_type = ''FIT'', updatedAt = ''d''\<rparr>]\<rparr>,
           \<lparr>sku = ''B'', warehouseId = ''w'',
              items = [\<lparr>item_count = 100, item_type = ''FIT'', updatedAt = ''d''\<rparr>]\<rparr>,
           \<lparr>sku = ''C'', warehouseId = ''w'',
              items = [\<lparr>item_count = 0, item_type = ''FIT'', updatedAt = ''d''\<rparr>]\<rparr>]"
    by blast
  from 1 2 3 k c d create_stocks_example market_create_stocks_example show ?thesis by blast
qed

section \<open>The count a matched row is emitted with\<close>

lemma subseq_set: "subseq xs ys \<Longrightarrow> set xs \<subseteq> set ys"
  by (auto elim: list_emb_set)

lemma stock_row_Some:
  "stock_row py w = Some e \<Longrightarrow>
     offer_id e = code_of w \<and> stock_of_count py (Kolichestvo w) = Inr (stock e)"
  by (auto simp: stock_row_def split: sum.splits)

lemma create_stocks_emits_at:
  assumes "create_stocks py (F1 @ w # F2) K = Inr (stocks, K')"
    and "stocks_loop py F1 [] K = Inr (st1, K1)" and "code_of w \<in> set K1"
  shows "\<exists>n. stock_of_count py (Kolichestvo w) = Inr n
           \<and> length st1 < length stocks \<and> take (length st1) stocks = st1
           \<and> stocks ! length st1 = \<lparr>offer_id = code_of w, stock = n\<rparr>"
proof -
  from assms(1) obtain st where st: "stocks_loop py (F1 @ w # F2) [] K = Inr (st, K')"
    and stocks: "stocks = st @ map zero_entry K'"
    by (auto simp: create_stocks_def zero_loop_eq split: sum.splits)
  from st assms(2) have 2: "stocks_loop py (w # F2) st1 K1 = Inr (st, K')"
    by (simp add: stocks_loop_append)
  with assms(3) obtain n where n: "stock_of_count py (Kolichestvo w) = Inr n"
    and 3: "stocks_loop py F2 (st1 @ [\<lparr>offer_id = py_str (Kod w), stock = n\<rparr>])
              (remove1 (py_str (Kod w)) K1) = Inr (st, K')"
    by (auto simp: code_of_def split: sum.splits)
  from stocks_loop_inv [OF 3] obtain M where
    "st = (st1 @ [\<lparr>offer_id = py_str (Kod w), stock = n\<rparr>]) @ M" by blast
  with stocks have "stocks = st1 @ \<lparr>offer_id = code_of w, stock = n\<rparr> # (M @ map zero_entry K')"
    by (simp add: code_of_def)
  then have "length st1 < length stocks" "take (length st1) stocks = st1"
    "stocks ! length st1 = \<lparr>offer_id = code_of w, stock = n\<rparr>"
    by simp_all
  with n show ?thesis by blast
qed

lemma create_stocks_entries:
  assumes "create_stocks py F K = Inr (stocks, K')" "e \<in> set stocks"
  shows "(\<exists>w \<in> set F. code_of w = offer_id e \<and> stock_of_count py (Kolichestvo w) = Inr (stock e))
         \<or> (stock e = 0 \<and> offer_id e \<in> set K')"
proof -
  from create_stocks_order(1) [OF assms(1)] obtain M where M: "stocks = M @ map zero_entry K'"
    "subseq M (List.map_filter (stock_row py) F)" by blast
  from assms(2) M(1) consider "e \<in> set M" | "e \<in> set (map zero_entry K')" by auto
  then show ?thesis
  proof cases
    case 1
    with subseq_set [OF M(2)] have "e \<in> set (List.map_filter (stock_row py) F)" by blast
    then obtain w where w: "w \<in> set F" "stock_row py w = Some e"
      by (auto simp: List.map_filter_def)
    from stock_row_Some [OF w(2)] w(1) show ?thesis by auto
  next
    case 2
    then show ?thesis by (auto simp: zero_entry_def)
  qed
qed

lemma market_stocks_loop_Inr:
  assumes "market_stocks_loop py wid date F [] K = Inr (sk, K1)"
  shows "\<exists>st. stocks_loop py F [] K = Inr (st, K1) \<and> sk = map (to_sku wid date) st"
  using assms market_stocks_loop_rel [of py wid date F "[]" K]
  by (auto split: sum.splits)

lemma market_create_stocks_emits_at:
  assumes "market_create_stocks py date (F1 @ w # F2) K wid = Inr (skus, K')"
    and "market_stocks_loop py wid date F1 [] K = Inr (sk1, K1)" and "code_of w \<in> set K1"
  shows "\<exists>n. stock_of_count py (Kolichestvo w) = Inr n
           \<and> length sk1 < length skus \<and> take (length sk1) skus = sk1
           \<and> skus ! length sk1 =
               \<lparr>sku = code_of w, warehouseId = wid,
                items = [\<lparr>item_count = n, item_type = ''FIT'', updatedAt = date\<rparr>]\<rparr>"
proof -
  from market_create_stocks_Inr [OF assms(1)] obtain st where
    r: "create_stocks py (F1 @ w # F2) K = Inr (st, K')" and skus: "skus = map (to_sku wid date) st"
    by blast
  from market_stocks_loop_Inr [OF assms(2)] obtain st1 where
    1: "stocks_loop py F1 [] K = Inr (st1, K1)" and sk1: "sk1 = map (to_sku wid date) st1"
    by blast
  from create_stocks_emits_at [OF r 1 assms(3)] obtain n where
    n: "stock_of_count py (Kolichestvo w) = Inr n" and l: "length st1 < length st"
    and t: "take (length st1) st = st1"
    and e: "st ! length st1 = \<lparr>offer_id = code_of w, stock = n\<rparr>" by blast
  have "length sk1 < length skus" using l by (simp add: skus sk1)
  moreover have "take (length sk1) skus = sk1"
    using t by (simp add: skus sk1 take_map)
  moreover have "skus ! length sk1 =
               \<lparr>sku = code_of w, warehouseId = wid,
                items = [\<lparr>item_count = n, item_type = ''FIT'', updatedAt = date\<rparr>]\<rparr>"
    using l e by (simp add: skus sk1 to_sku_fields)
  ultimately show ?thesis using n by blast
qed

lemma market_create_stocks_entries:
  assumes "market_create_stocks py date F K wid = Inr (skus, K')" "e \<in> set skus"
  shows "\<exists>n. e = \<lparr>sku = sku e, warehouseId = wid,
                  items = [\<lparr>item_count = n, item_type = ''FIT'', updatedAt = date\<rparr>]\<rparr>
           \<and> ((\<exists>w \<in> set F. code_of w = sku e \<and> stock_of_count py (Kolichestvo w) = Inr n)
               \<or> (n = 0 \<and> sku e \<in> set K'))"
proof -
  from market_create_stocks_Inr [OF assms(1)] obtain st where
    r: "create_stocks py F K = Inr (st, K')" and skus: "skus = map (to_sku wid date) st"
    by blast
  from assms(2) skus obtain x where x: "x \<in> set st" "e = to_sku wid date x" by auto
  from create_stocks_entries [OF r x(1)] x(2) show ?thesis
    by (intro exI [of _ "stock x"]) (auto simp: to_sku_fields)
qed

lemma feed_example_split:
  "feed_example =
     [\<lparr>Kod = PStr ''A'', Kolichestvo = PStr ''5'', Tsena = PStr ''100.00 x''\<rparr>,
      \<lparr>Kod = PStr ''A'', Kolichestvo = PStr ''7'', Tsena = PStr ''150.00 x''\<rparr>,
      \<lparr>Kod = PStr ''Z'', Kolichestvo = PStr ''abc'', Tsena = PNone\<rparr>,
      \<lparr>Kod = PInt (Abs_xl_int 12), Kolichestvo = PInt (Abs_xl_int 1), Tsena = PStr ''1''\<rparr>]
     @ \<lparr>Kod = PStr ''B'', Kolichestvo = PStr ''>10'', Tsena = PStr ''200.00 x''\<rparr> # []"
  by (simp add: feed_example_def)

lemma stocks_loop_example_prefix:
  "stocks_loop py
     [\<lparr>Kod = PStr ''A'', Kolichestvo = PStr ''5'', Tsena = PStr ''100.00 x''\<rparr>,
      \<lparr>Kod = PStr ''A'', Kolichestvo = PStr ''7'', Tsena = PStr ''150.00 x''\<rparr>,
      \<lparr>Kod = PStr ''Z'', Kolichestvo = PStr ''abc'', Tsena = PNone\<rparr>,
      \<lparr>Kod = PInt (Abs_xl_int 12), Kolichestvo = PInt (Abs_xl_int 1), Tsena = PStr ''1''\<rparr>]
     [] [''C'', ''B'', ''12'', ''A''] =
   Inr ([\<lparr>offer_id = ''A'', stock = 5\<rparr>, \<lparr>offer_id = ''12'', stock = 0\<rparr>], [''C'', ''B''])"
  by (simp add: eval_simps)

lemma market_stocks_loop_example_prefix:
  "market_stocks_loop py ''w'' ''d''
     [\<lparr>Kod = PStr ''A'', Kolichestvo = PStr ''5'', Tsena = PStr ''100.00 x''\<rparr>,
      \<lparr>Kod = PStr ''A'', Kolichestvo = PStr ''7'', Tsena = PStr ''150.00 x''\<rparr>,
      \<lparr>Kod = PStr ''Z'', Kolichestvo = PStr ''abc'', Tsena = PNone\<rparr>,
      \<lparr>Kod = PInt (Abs_xl_int 12), Kolichestvo = PInt (Abs_xl_int 1), Tsena = PStr ''1''\<rparr>]
     [] [''C'', ''B'', ''12'', ''A''] =
   Inr ([\<lparr>sku = ''A'', warehouseId = ''w'',
           items = [\<lparr>item_count = 5, item_type = ''FIT'', updatedAt = ''d''\<rparr>]\<rparr>,
         \<lparr>sku = ''12'', warehouseId = ''w'',
           items = [\<lparr>item_count = 0, item_type = ''FIT'', updatedAt = ''d''\<rparr>]\<rparr>],
        [''C'', ''B''])"
  by (simp add: sku_of_def eval_simps)

lemma long_quantity_digits:
  "long_quantity \<noteq> []" "\<forall>c \<in> set long_quantity. is_digit c" "long_quantity \<noteq> ''1''"
  "length long_quantity = 4301" "set long_quantity = {CHR ''7''}"
proof -
  show l: "length long_quantity = 4301" by (simp add: long_quantity_def)
  then show "long_quantity \<noteq> []" by auto
  show "long_quantity \<noteq> ''1''"
  proof
    assume "long_quantity = ''1''"
    then have "length long_quantity = length ''1''" by (rule arg_cong)
    with l show False by simp
  qed
  show "set long_quantity = {CHR ''7''}" by (simp add: long_quantity_def)
  then show "\<forall>c \<in> set long_quantity. is_digit c" by (simp add: is_digit_def)
qed

lemma stock_of_count_long_quantity:
  "stock_of_count ascii_interpreter (PStr long_quantity) = Inl ValueError"
  using stock_of_count_digits [OF long_quantity_digits(1,2,3), of ascii_interpreter]
  by (simp add: long_quantity_digits(4) over_limit_def ascii_interpreter_def)

text \<open>
  C2 (as stated, refuted): a numeric string with more digits than the interpreter's limit
  for \<^verbatim>\<open>int\<close> (4300 unless configured otherwise) is not mapped to the integer it denotes:
  \<^verbatim>\<open>int\<close> raises \<^verbatim>\<open>ValueError\<close>, and so does \<^verbatim>\<open>create_stocks\<close> when the row is matched.
\<close>

theorem quantity_over_digit_limit_counterexample:
  "long_quantity = replicate 4301 CHR ''7''
   \<and> is_digit CHR ''7''
   \<and> int_max_str_digits ascii_interpreter = 4300
   \<and> stock_of_count ascii_interpreter (PStr long_quantity) = Inl ValueError
   \<and> feed_long_quantity =
       [\<lparr>Kod = PStr ''A'', Kolichestvo = PStr long_quantity, Tsena = PStr ''100.00 x''\<rparr>]
   \<and> create_stocks ascii_interpreter feed_long_quantity [''A''] = Inl ValueError"
  by (simp add: stock_of_count_long_quantity create_stocks_def feed_long_quantity_def
      is_digit_def ascii_interpreter_def [symmetric])
     (simp add: long_quantity_def ascii_interpreter_def)

text \<open>
  C2 (amended): the quantity block of \<^verbatim>\<open>create_stocks\<close> maps \<^verbatim>\<open>">10"\<close> to 100 and \<^verbatim>\<open>"1"\<close>
  to 0. Any other string of decimal digits, and the decimal numeral of any other integer,
  it maps to the integer denoted (\<^verbatim>\<open>"7"\<close> to 7) when the digits are no more than the
  interpreter's limit, and raises \<^verbatim>\<open>ValueError\<close> when they are more; a string with a
  character outside ASCII is read through the interpreter's transformation into ASCII; an
  integer cell other than 1 is kept. Each row whose code is in \<^verbatim>\<open>offer_ids\<close> when the loop
  reaches it is emitted, as the next entry, with exactly this integer as its count, and
  every entry of the result is such a row's or a zero entry of an id left over. For
  market.py the count is the field \<^verbatim>\<open>count\<close> of the one item of the entry.
\<close>

theorem quantity_normalization:
  "stock_of_count py (PStr ''>10'') = Inr 100
   \<and> stock_of_count py (PStr ''1'') = Inr 0
   \<and> stock_of_count py (PStr ''7'') = Inr 7
   \<and> stock_of_count py (PInt x) = Inr (if Rep_xl_int x = 1 then 0 else Rep_xl_int x)
   \<and> stock_of_count py (PStr (str_int i)) =
       (if i = 1 then Inr 0
        else if over_limit py (length (digits_nat (nat \<bar>i\<bar>))) then Inl ValueError
        else Inr i)
   \<and> (s \<noteq> [] \<and> (\<forall>c \<in> set s. is_digit c) \<and> s \<noteq> ''1'' \<longrightarrow>
        stock_of_count py (PStr s) =
          (if over_limit py (length s) then Inl ValueError else Inr (int_of_digits s)))
   \<and> (\<not> is_ascii u \<and> to_ascii py u = d \<and> d \<noteq> [] \<and> (\<forall>c \<in> set d. is_digit c) \<longrightarrow>
        stock_of_count py (PStr u) =
          (if over_limit py (length d) then Inl ValueError else Inr (int_of_digits d)))
   \<and> (create_stocks py (F1 @ w # F2) K = Inr (stocks, K')
        \<and> stocks_loop py F1 [] K = Inr (st1, K1) \<and> code_of w \<in> set K1 \<longrightarrow>
        (\<exists>n. stock_of_count py (Kolichestvo w) = Inr n
            \<and> length st1 < length stocks \<and> take (length st1) stocks = st1
            \<and> stocks ! length st1 = \<lparr>offer_id = code_of w, stock = n\<rparr>))
   \<and> (market_create_stocks py date (F1 @ w # F2) K wid = Inr (skus, K'')
        \<and> market_stocks_loop py wid date F1 [] K = Inr (sk1, K1) \<and> code_of w \<in> set K1 \<longrightarrow>
        (\<exists>n. stock_of_count py (Kolichestvo w) = Inr n
            \<and> length sk1 < length skus \<and> take (length sk1) skus = sk1
            \<and> skus ! length sk1 =
                \<lparr>sku = code_of w, warehouseId = wid,
                 items = [\<lparr>item_count = n, item_type = ''FIT'', updatedAt = date\<rparr>]\<rparr>))
   \<and> (create_stocks py F K = Inr (stocks, K') \<longrightarrow>
        (\<forall>e \<in> set stocks.
           (\<exists>w \<in> set F. code_of w = offer_id e
               \<and> stock_of_count py (Kolichestvo w) = Inr (stock e))
           \<or> (stock e = 0 \<and> offer_id e \<in> set K')))
   \<and> (market_create_stocks py date F K wid = Inr (skus, K'') \<longrightarrow>
        (\<forall>e \<in> set skus. \<exists>n.
           e = \<lparr>sku = sku e, warehouseId = wid,
                items = [\<lparr>item_count = n, item_type = ''FIT'', updatedAt = date\<rparr>]\<rparr>
           \<and> ((\<exists>w \<in> set F. code_of w = sku e
                  \<and> stock_of_count py (Kolichestvo w) = Inr n)
               \<or> (n = 0 \<and> sku e \<in> set K''))))"
proof (intro conjI impI ballI)
  show "stock_of_count py (PStr ''>10'') = Inr 100" "stock_of_count py (PStr ''1'') = Inr 0"
    "stock_of_count py (PStr ''7'') = Inr 7"
    by (rule stock_of_count_examples)+
  show "stock_of_count py (PInt x) = Inr (if Rep_xl_int x = 1 then 0 else Rep_xl_int x)"
    by (rule stock_of_count_int)
  show "stock_of_count py (PStr (str_int i)) =
       (if i = 1 then Inr 0
        else if over_limit py (length (digits_nat (nat \<bar>i\<bar>))) then Inl ValueError
        else Inr i)"
    by (rule stock_of_count_str_int)
  show "stock_of_count py (PStr s) =
          (if over_limit py (length s) then Inl ValueError else Inr (int_of_digits s))"
    if "s \<noteq> [] \<and> (\<forall>c \<in> set s. is_digit c) \<and> s \<noteq> ''1''"
    using that by (elim conjE) (rule stock_of_count_digits)
  show "stock_of_count py (PStr u) =
          (if over_limit py (length d) then Inl ValueError else Inr (int_of_digits d))"
    if "\<not> is_ascii u \<and> to_ascii py u = d \<and> d \<noteq> [] \<and> (\<forall>c \<in> set d. is_digit c)"
    using that by (elim conjE) (rule stock_of_count_non_ascii)
  show "\<exists>n. stock_of_count py (Kolichestvo w) = Inr n
            \<and> length st1 < length stocks \<and> take (length st1) stocks = st1
            \<and> stocks ! length st1 = \<lparr>offer_id = code_of w, stock = n\<rparr>"
    if "create_stocks py (F1 @ w # F2) K = Inr (stocks, K')
        \<and> stocks_loop py F1 [] K = Inr (st1, K1) \<and> code_of w \<in> set K1"
    using that by (elim conjE) (rule create_stocks_emits_at)
  show "\<exists>n. stock_of_count py (Kolichestvo w) = Inr n
            \<and> length sk1 < length skus \<and> take (length sk1) skus = sk1
            \<and> skus ! length sk1 =
                \<lparr>sku = code_of w, warehouseId = wid,
                 items = [\<lparr>item_count = n, item_type = ''FIT'', updatedAt = date\<rparr>]\<rparr>"
    if "market_create_stocks py date (F1 @ w # F2) K wid = Inr (skus, K'')
        \<and> market_stocks_loop py wid date F1 [] K = Inr (sk1, K1) \<and> code_of w \<in> set K1"
    using that by (elim conjE) (rule market_create_stocks_emits_at)
  show "(\<exists>w \<in> set F. code_of w = offer_id e
               \<and> stock_of_count py (Kolichestvo w) = Inr (stock e))
           \<or> (stock e = 0 \<and> offer_id e \<in> set K')"
    if "create_stocks py F K = Inr (stocks, K')" "e \<in> set stocks" for e
    by (rule create_stocks_entries [OF that])
  show "\<exists>n. e = \<lparr>sku = sku e, warehouseId = wid,
                items = [\<lparr>item_count = n, item_type = ''FIT'', updatedAt = date\<rparr>]\<rparr>
           \<and> ((\<exists>w \<in> set F. code_of w = sku e
                  \<and> stock_of_count py (Kolichestvo w) = Inr n)
               \<or> (n = 0 \<and> sku e \<in> set K''))"
    if "market_create_stocks py date F K wid = Inr (skus, K'')" "e \<in> set skus" for e
    by (rule market_create_stocks_entries [OF that])
qed

lemma arabic_three:
  "\<not> is_ascii [CHR 0xD9, CHR 0xA3]" "to_ascii arabic_interpreter [CHR 0xD9, CHR 0xA3] = ''3''"
  "''3'' \<noteq> []" "\<forall>c \<in> set ''3''. is_digit c"
  by (simp_all add: is_ascii_def arabic_interpreter_def is_digit_def)

theorem quantity_normalization_witness:
  "''42'' \<noteq> [] \<and> is_digit CHR ''4'' \<and> is_digit CHR ''2'' \<and> ''42'' \<noteq> ''1''
   \<and> stock_of_count ascii_interpreter (PStr ''42'') = Inr 42
   \<and> stock_of_count ascii_interpreter (PStr long_quantity) = Inl ValueError
   \<and> stock_of_count ascii_interpreter (PInt (Abs_xl_int 1)) = Inr 0
   \<and> \<not> is_ascii [CHR 0xD9, CHR 0xA3]
   \<and> to_ascii arabic_interpreter [CHR 0xD9, CHR 0xA3] = ''3''
   \<and> is_digit CHR ''3''
   \<and> stock_of_count arabic_interpreter (PStr [CHR 0xD9, CHR 0xA3]) = Inr 3
   \<and> create_stocks ascii_interpreter feed_example [''C'', ''B'', ''12'', ''A''] =
       Inr ([\<lparr>offer_id = ''A'', stock = 5\<rparr>, \<lparr>offer_id = ''12'', stock = 0\<rparr>,
             \<lparr>offer_id = ''B'', stock = 100\<rparr>, \<lparr>offer_id = ''C'', stock = 0\<rparr>], [''C''])
   \<and> stocks_loop ascii_interpreter
       [\<lparr>Kod = PStr ''A'', Kolichestvo = PStr ''5'', Tsena = PStr ''100.00 x''\<rparr>,
        \<lparr>Kod = PStr ''A'', Kolichestvo = PStr ''7'', Tsena = PStr ''150.00 x''\<rparr>,
        \<lparr>Kod = PStr ''Z'', Kolichestvo = PStr ''abc'', Tsena = PNone\<rparr>,
        \<lparr>Kod = PInt (Abs_xl_int 12), Kolichestvo = PInt (Abs_xl_int 1), Tsena = PStr ''1''\<rparr>]
       [] [''C'', ''B'', ''12'', ''A''] =
     Inr ([\<lparr>offer_id = ''A'', stock = 5\<rparr>, \<lparr>offer_id = ''12'', stock = 0\<rparr>], [''C'', ''B''])
   \<and> code_of \<lparr>Kod = PStr ''B'', Kolichestvo = PStr ''>10'', Tsena = PStr ''200.00 x''\<rparr>
        \<in> set [''C'', ''B'']
   \<and> [\<lparr>offer_id = ''A'', stock = 5\<rparr>, \<lparr>offer_id = ''12'', stock = 0\<rparr>,
        \<lparr>offer_id = ''B'', stock = 100\<rparr>, \<lparr>offer_id = ''C'', stock = 0\<rparr>]
       ! length [\<lparr>offer_id = ''A'', stock = 5\<rparr>, \<lparr>offer_id = ''12'', stock = 0\<rparr>]
       = \<lparr>offer_id = ''B'', stock = 100\<rparr>
   \<and> market_create_stocks ascii_interpreter ''d'' feed_example [''C'', ''B'', ''12'', ''A''] ''w'' =
       Inr ([\<lparr>sku = ''A'', warehouseId = ''w'',
              items = [\<lparr>item_count = 5, item_type = ''FIT'', updatedAt = ''d''\<rparr>]\<rparr>,
           \<lparr>sku = ''12'', warehouseId = ''w'',
              items = [\<lparr>item_count = 0, item_type = ''FIT'', updatedAt = ''d''\<rparr>]\<rparr>,
           \<lparr>sku = ''B'', warehouseId = ''w'',
              items = [\<lparr>item_count = 100, item_type = ''FIT'', updatedAt = ''d''\<rparr>]\<rparr>,
           \<lparr>sku = ''C'', warehouseId = ''w'',
              items = [\<lparr>item_count = 0, item_type = ''FIT'', updatedAt = ''d''\<rparr>]\<rparr>], [''C''])
   \<and> market_stocks_loop ascii_interpreter ''w'' ''d''
       [\<lparr>Kod = PStr ''A'', Kolichestvo = PStr ''5'', Tsena = PStr ''100.00 x''\<rparr>,
        \<lparr>Kod = PStr ''A'', Kolichestvo = PStr ''7'', Tsena = PStr ''150.00 x''\<rparr>,
        \<lparr>Kod = PStr ''Z'', Kolichestvo = PStr ''abc'', Tsena = PNone\<rparr>,
        \<lparr>Kod = PInt (Abs_xl_int 12), Kolichestvo = PInt (Abs_xl_int 1), Tsena = PStr ''1''\<rparr>]
       [] [''C'', ''B'', ''12'', ''A''] =
     Inr ([\<lparr>sku = ''A'', warehouseId = ''w'',
             items = [\<lparr>item_count = 5, item_type = ''FIT'', updatedAt = ''d''\<rparr>]\<rparr>,
           \<lparr>sku = ''12'', warehouseId = ''w'',
             items = [\<lparr>item_count = 0, item_type = ''FIT'', updatedAt = ''d''\<rparr>]\<rparr>],
          [''C'', ''B''])
   \<and> map item_count (items
        ([\<lparr>sku = ''A'', warehouseId = ''w'',
              items = [\<lparr>item_count = 5, item_type = ''FIT'', updatedAt = ''d''\<rparr>]\<rparr>,
           \<lparr>sku = ''12'', warehouseId = ''w'',
              items = [\<lparr>item_count = 0, item_type = ''FIT'', updatedAt = ''d''\<rparr>]\<rparr>,
           \<lparr>sku = ''B'', warehouseId = ''w'',
              items = [\<lparr>item_count = 100, item_type = ''FIT'', updatedAt = ''d''\<rparr>]\<rparr>,
           \<lparr>sku = ''C'', warehouseId = ''w'',
              items = [\<lparr>item_count = 0, item_type = ''FIT'', updatedAt = ''d''\<rparr>]\<rparr>] ! 2)) = [100]
   \<and> (\<exists>w \<in> set feed_example. code_of w = ''B''
         \<and> stock_of_count ascii_interpreter (Kolichestvo w) = Inr 100)"
proof -
  let ?w = "\<lparr>Kod = PStr ''B'', Kolichestvo = PStr ''>10'', Tsena = PStr ''200.00 x''\<rparr>"
  let ?F1 = "[\<lparr>Kod = PStr ''A'', Kolichestvo = PStr ''5'', Tsena = PStr ''100.00 x''\<rparr>,
      \<lparr>Kod = PStr ''A'', Kolichestvo = PStr ''7'', Tsena = PStr ''150.00 x''\<rparr>,
      \<lparr>Kod = PStr ''Z'', Kolichestvo = PStr ''abc'', Tsena = PNone\<rparr>,
      \<lparr>Kod = PInt (Abs_xl_int 12), Kolichestvo = PInt (Abs_xl_int 1), Tsena = PStr ''1''\<rparr>]"
  let ?K = "[''C'', ''B'', ''12'', ''A'']"
  let ?stocks = "[\<lparr>offer_id = ''A'', stock = 5\<rparr>, \<lparr>offer_id = ''12'', stock = 0\<rparr>,
             \<lparr>offer_id = ''B'', stock = 100\<rparr>, \<lparr>offer_id = ''C'', stock = 0\<rparr>]"
  let ?st1 = "[\<lparr>offer_id = ''A'', stock = 5\<rparr>, \<lparr>offer_id = ''12'', stock = 0\<rparr>]"
  let ?skus = "[\<lparr>sku = ''A'', warehouseId = ''w'',
              items = [\<lparr>item_count = 5, item_type = ''FIT'', updatedAt = ''d''\<rparr>]\<rparr>,
           \<lparr>sku = ''12'', warehouseId = ''w'',
              items = [\<lparr>item_count = 0, item_type = ''FIT'', updatedAt = ''d''\<rparr>]\<rparr>,
           \<lparr>sku = ''B'', warehouseId = ''w'',
              items = [\<lparr>item_count = 100, item_type = ''FIT'', updatedAt = ''d''\<rparr>]\<rparr>,
           \<lparr>sku = ''C'', warehouseId = ''w'',
              items = [\<lparr>item_count = 0, item_type = ''FIT'', updatedAt = ''d''\<rparr>]\<rparr>]"
  let ?sk1 = "[\<lparr>sku = ''A'', warehouseId = ''w'',
             items = [\<lparr>item_count = 5, item_type = ''FIT'', updatedAt = ''d''\<rparr>]\<rparr>,
           \<lparr>sku = ''12'', warehouseId = ''w'',
             items = [\<lparr>item_count = 0, item_type = ''FIT'', updatedAt = ''d''\<rparr>]\<rparr>]"
  note t = quantity_normalization
    [where py = ascii_interpreter and s = "''42''" and x = "Abs_xl_int 1"
       and ?F1.0 = ?F1 and w = ?w and ?F2.0 = "[]" and K = ?K and stocks = ?stocks
       and K' = "[''C'']" and ?st1.0 = ?st1 and ?K1.0 = "[''C'', ''B'']"
       and date = "''d''" and wid = "''w''" and skus = ?skus and K'' = "[''C'']"
       and ?sk1.0 = ?sk1 and F = feed_example]
  note l = quantity_normalization [where py = ascii_interpreter and s = long_quantity]
  note a = quantity_normalization
    [where py = arabic_interpreter and u = "[CHR 0xD9, CHR 0xA3]" and d = "''3''"]
  have digits: "''42'' \<noteq> []" "is_digit CHR ''4''" "is_digit CHR ''2''" "''42'' \<noteq> ''1''"
    "is_digit CHR ''3''"
    by (simp_all add: is_digit_def)
  then have "''42'' \<noteq> [] \<and> (\<forall>c \<in> set ''42''. is_digit c) \<and> ''42'' \<noteq> ''1''" by simp
  with t have "stock_of_count ascii_interpreter (PStr ''42'') =
      (if over_limit ascii_interpreter (length ''42'') then Inl ValueError
       else Inr (int_of_digits ''42''))" by blast
  then have c1: "stock_of_count ascii_interpreter (PStr ''42'') = Inr 42"
    by (simp add: over_limit_def int_of_digits_def digit_val_def)
  from l long_quantity_digits(1,2,3)
  have "stock_of_count ascii_interpreter (PStr long_quantity) =
      (if over_limit ascii_interpreter (length long_quantity) then Inl ValueError
       else Inr (int_of_digits long_quantity))" by blast
  then have c2: "stock_of_count ascii_interpreter (PStr long_quantity) = Inl ValueError"
    by (simp add: long_quantity_digits(4) over_limit_def ascii_interpreter_def)
  from t have "stock_of_count ascii_interpreter (PInt (Abs_xl_int 1)) =
      Inr (if Rep_xl_int (Abs_xl_int 1) = 1 then 0 else Rep_xl_int (Abs_xl_int 1))" by blast
  then have c3: "stock_of_count ascii_interpreter (PInt (Abs_xl_int 1)) = Inr 0"
    by (simp add: Rep_xl_int_numeral)
  from a arabic_three
  have "stock_of_count arabic_interpreter (PStr [CHR 0xD9, CHR 0xA3]) =
      (if over_limit arabic_interpreter (length ''3'') then Inl ValueError
       else Inr (int_of_digits ''3''))" by blast
  then have c4: "stock_of_count arabic_interpreter (PStr [CHR 0xD9, CHR 0xA3]) = Inr 3"
    by (simp add: over_limit_def int_of_digits_def digit_val_def)
  have k: "code_of ?w \<in> set [''C'', ''B'']" by (simp add: code_of_def)
  have g: "stock_of_count ascii_interpreter (Kolichestvo ?w) = Inr 100"
    by (simp add: stock_of_count_examples)
  note cs = create_stocks_example [of ascii_interpreter]
  note ms = market_create_stocks_example [of ascii_interpreter]
  from t cs [unfolded feed_example_split] stocks_loop_example_prefix [of ascii_interpreter] k
  obtain n where "stock_of_count ascii_interpreter (Kolichestvo ?w) = Inr n"
    and "?stocks ! length ?st1 = \<lparr>offer_id = code_of ?w, stock = n\<rparr>" by blast
  with g have c5: "?stocks ! length ?st1 = \<lparr>offer_id = ''B'', stock = 100\<rparr>"
    by (simp add: code_of_def)
  from t ms [unfolded feed_example_split] market_stocks_loop_example_prefix [of ascii_interpreter] k
  obtain m where "stock_of_count ascii_interpreter (Kolichestvo ?w) = Inr m"
    and "?skus ! length ?sk1 = \<lparr>sku = code_of ?w, warehouseId = ''w'',
                 items = [\<lparr>item_count = m, item_type = ''FIT'', updatedAt = ''d''\<rparr>]\<rparr>" by blast
  with g have c6: "map item_count (items (?skus ! 2)) = [100]"
    by simp
  from t cs have "\<forall>e \<in> set ?stocks.
           (\<exists>w \<in> set feed_example. code_of w = offer_id e
               \<and> stock_of_count ascii_interpreter (Kolichestvo w) = Inr (stock e))
           \<or> (stock e = 0 \<and> offer_id e \<in> set [''C''])" by blast
  then have "(\<exists>w \<in> set feed_example. code_of w = offer_id \<lparr>offer_id = ''B'', stock = 100\<rparr>
               \<and> stock_of_count ascii_interpreter (Kolichestvo w)
                   = Inr (stock \<lparr>offer_id = ''B'', stock = 100\<rparr>))
           \<or> (stock \<lparr>offer_id = ''B'', stock = 100\<rparr> = 0
               \<and> offer_id \<lparr>offer_id = ''B'', stock = 100\<rparr> \<in> set [''C''])"
    by (rule bspec) simp
  then have c7: "\<exists>w \<in> set feed_example. code_of w = ''B''
         \<and> stock_of_count ascii_interpreter (Kolichestvo w) = Inr 100"
    by simp
  from digits(1-4) c1 c2 c3 arabic_three(1,2) digits(5) c4 cs
    stocks_loop_example_prefix [of ascii_interpreter] k c5 ms
    market_stocks_loop_example_prefix [of ascii_interpreter] c6 c7
  show ?thesis by (intro conjI)
qed

section \<open>Properties of the price builder\<close>

lemma prices_loop_inv:
  "prices_loop F K acc = Inr (ps, K1) \<Longrightarrow>
     K1 = K \<and> (\<exists>P. ps = acc @ P
        \<and> map price_offer_id P = map code_of (filter (\<lambda>w. code_of w \<in> set K) F)
        \<and> map (\<lambda>p. Inr (price p)) P
            = map (\<lambda>w. price_conversion (Tsena w)) (filter (\<lambda>w. code_of w \<in> set K) F))"
proof (induction F arbitrary: acc)
  case Nil
  then show ?case by simp
next
  case (Cons w F)
  show ?case
  proof (cases "py_str (Kod w) \<in> set K")
    case False
    with Cons.prems have "prices_loop F K acc = Inr (ps, K1)" by simp
    from Cons.IH [OF this] False show ?thesis by (simp add: code_of_def)
  next
    case True
    with Cons.prems obtain p where p: "price_conversion (Tsena w) = Inr p"
      and run: "prices_loop F K (acc @ [\<lparr>auto_action_enabled = ''UNKNOWN'', currency_code = ''RUB'',
                  price_offer_id = py_str (Kod w), old_price = ''0'', price = p\<rparr>]) = Inr (ps, K1)"
      by (auto split: sum.splits)
    let ?e = "\<lparr>auto_action_enabled = ''UNKNOWN'', currency_code = ''RUB'',
                  price_offer_id = py_str (Kod w), old_price = ''0'', price = p\<rparr>"
    from Cons.IH [OF run] obtain P where K1: "K1 = K" and P: "ps = (acc @ [?e]) @ P"
      "map price_offer_id P = map code_of (filter (\<lambda>w. code_of w \<in> set K) F)"
      "map (\<lambda>p. Inr (price p)) P
         = map (\<lambda>w. price_conversion (Tsena w)) (filter (\<lambda>w. code_of w \<in> set K) F)"
      by blast
    have "ps = acc @ (?e # P)" using P(1) by simp
    moreover have "map price_offer_id (?e # P)
        = map code_of (filter (\<lambda>w. code_of w \<in> set K) (w # F))"
      using True P(2) by (simp add: code_of_def)
    moreover have "map (\<lambda>p. Inr (price p)) (?e # P)
        = map (\<lambda>w. price_conversion (Tsena w)) (filter (\<lambda>w. code_of w \<in> set K) (w # F))"
      using True P(3) p by (simp add: code_of_def)
    ultimately show ?thesis using K1 by blast
  qed
qed

lemma market_prices_loop_inv:
  "market_prices_loop py F K acc = Inr (ps, K1) \<Longrightarrow>
     K1 = K \<and> (\<exists>P. ps = acc @ P
        \<and> map price_id P = map code_of (filter (\<lambda>w. code_of w \<in> set K) F)
        \<and> map (\<lambda>p. Inr (price_value (price_of p))) P
            = map (\<lambda>w. case price_conversion (Tsena w) of Inl e \<Rightarrow> Inl e | Inr p \<Rightarrow> int_of_str py p)
                (filter (\<lambda>w. code_of w \<in> set K) F))"
proof (induction F arbitrary: acc)
  case Nil
  then show ?case by simp
next
  case (Cons w F)
  show ?case
  proof (cases "py_str (Kod w) \<in> set K")
    case False
    with Cons.prems have "market_prices_loop py F K acc = Inr (ps, K1)" by simp
    from Cons.IH [OF this] False show ?thesis by (simp add: code_of_def)
  next
    case True
    with Cons.prems obtain p v where p: "price_conversion (Tsena w) = Inr p"
      and v: "int_of_str py p = Inr v"
      and run: "market_prices_loop py F K (acc @ [\<lparr>price_id = py_str (Kod w),
                  price_of = \<lparr>price_value = v, currencyId = ''RUR''\<rparr>\<rparr>]) = Inr (ps, K1)"
      by (auto split: sum.splits)
    let ?e = "\<lparr>price_id = py_str (Kod w), price_of = \<lparr>price_value = v, currencyId = ''RUR''\<rparr>\<rparr>"
    from Cons.IH [OF run] obtain P where K1: "K1 = K" and P: "ps = (acc @ [?e]) @ P"
      "map price_id P = map code_of (filter (\<lambda>w. code_of w \<in> set K) F)"
      "map (\<lambda>p. Inr (price_value (price_of p))) P
         = map (\<lambda>w. case price_conversion (Tsena w) of Inl e \<Rightarrow> Inl e | Inr p \<Rightarrow> int_of_str py p)
             (filter (\<lambda>w. code_of w \<in> set K) F)"
      by blast
    have "ps = acc @ (?e # P)" using P(1) by simp
    moreover have "map price_id (?e # P)
        = map code_of (filter (\<lambda>w. code_of w \<in> set K) (w # F))"
      using True P(2) by (simp add: code_of_def)
    moreover have "map (\<lambda>p. Inr (price_value (price_of p))) (?e # P)
        = map (\<lambda>w. case price_conversion (Tsena w) of Inl e \<Rightarrow> Inl e | Inr p \<Rightarrow> int_of_str py p)
            (filter (\<lambda>w. code_of w \<in> set K) (w # F))"
      using True P(3) p v by (simp add: code_of_def)
    ultimately show ?thesis using K1 by blast
  qed
qed

lemma set_codes_filter: "set (map code_of (filter (\<lambda>w. code_of w \<in> set K) F)) = set K \<inter> codes F"
  by (auto simp: codes_def)

lemma create_prices_example:
  "create_prices feed_example [''C'', ''B'', ''12'', ''A''] =
     Inr ([\<lparr>auto_action_enabled = ''UNKNOWN'', currency_code = ''RUB'', price_offer_id = ''A'',
             old_price = ''0'', price = ''100''\<rparr>,
           \<lparr>auto_action_enabled = ''UNKNOWN'', currency_code = ''RUB'', price_offer_id = ''A'',
             old_price = ''0'', price = ''150''\<rparr>,
           \<lparr>auto_action_enabled = ''UNKNOWN'', currency_code = ''RUB'', price_offer_id = ''12'',
             old_price = ''0'', price = ''1''\<rparr>,
           \<lparr>auto_action_enabled = ''UNKNOWN'', currency_code = ''RUB'', price_offer_id = ''B'',
             old_price = ''0'', price = ''200''\<rparr>], [''C'', ''B'', ''12'', ''A''])"
  by (simp add: create_prices_def feed_example_def str_int_12 re_sub_non_digits_def is_digit_def)

lemma market_create_prices_example:
  "market_create_prices py feed_example [''C'', ''B'', ''12'', ''A''] =
     Inr ([\<lparr>price_id = ''A'', price_of = \<lparr>price_value = 100, currencyId = ''RUR''\<rparr>\<rparr>,
           \<lparr>price_id = ''A'', price_of = \<lparr>price_value = 150, currencyId = ''RUR''\<rparr>\<rparr>,
           \<lparr>price_id = ''12'', price_of = \<lparr>price_value = 1, currencyId = ''RUR''\<rparr>\<rparr>,
           \<lparr>price_id = ''B'', price_of = \<lparr>price_value = 200, currencyId = ''RUR''\<rparr>\<rparr>],
          [''C'', ''B'', ''12'', ''A''])"
  by (simp add: market_create_prices_def feed_example_def str_int_12 re_sub_non_digits_def
      is_digit_def int_of_str_def strip_def is_space_def int_of_digits_def digit_val_def
      is_ascii_def over_limit_def)

text \<open>
  C6: \<^verbatim>\<open>create_prices\<close> emits one entry for each feed row whose code is a known id, in feed
  order, and nothing else: the ids in its result are the known ids that are codes of the
  feed, a known id absent from the feed never appears, and the list of known ids is left
  as it was (both variants).
\<close>

theorem create_prices_only_feed_and_known:
  "(create_prices F K = Inr (prices, K1) \<longrightarrow>
      K1 = K
      \<and> map price_offer_id prices = map code_of (filter (\<lambda>w. code_of w \<in> set K) F)
      \<and> map (\<lambda>p. Inr (price p)) prices
          = map (\<lambda>w. price_conversion (Tsena w)) (filter (\<lambda>w. code_of w \<in> set K) F)
      \<and> set (map price_offer_id prices) = set K \<inter> codes F
      \<and> (\<forall>k \<in> set K. k \<notin> codes F \<longrightarrow> k \<notin> set (map price_offer_id prices)))
   \<and> (market_create_prices py F K = Inr (mprices, K2) \<longrightarrow>
      K2 = K
      \<and> map price_id mprices = map code_of (filter (\<lambda>w. code_of w \<in> set K) F)
      \<and> set (map price_id mprices) = set K \<inter> codes F
      \<and> (\<forall>k \<in> set K. k \<notin> codes F \<longrightarrow> k \<notin> set (map price_id mprices)))"
proof (intro conjI impI ballI)
  assume "create_prices F K = Inr (prices, K1)"
  then have r: "prices_loop F K [] = Inr (prices, K1)" by (simp add: create_prices_def)
  from prices_loop_inv [OF r] show "K1 = K" by simp
  from prices_loop_inv [OF r]
  show ids: "map price_offer_id prices = map code_of (filter (\<lambda>w. code_of w \<in> set K) F)"
    by auto
  from prices_loop_inv [OF r]
  show "map (\<lambda>p. Inr (price p)) prices
          = map (\<lambda>w. price_conversion (Tsena w)) (filter (\<lambda>w. code_of w \<in> set K) F)"
    by auto
  show s: "set (map price_offer_id prices) = set K \<inter> codes F"
    unfolding ids by (rule set_codes_filter)
  show "k \<notin> set (map price_offer_id prices)" if "k \<in> set K" "k \<notin> codes F" for k
    using that unfolding s by simp
next
  assume "market_create_prices py F K = Inr (mprices, K2)"
  then have r: "market_prices_loop py F K [] = Inr (mprices, K2)"
    by (simp add: market_create_prices_def)
  from market_prices_loop_inv [OF r] show "K2 = K" by simp
  from market_prices_loop_inv [OF r]
  show ids: "map price_id mprices = map code_of (filter (\<lambda>w. code_of w \<in> set K) F)"
    by auto
  show s: "set (map price_id mprices) = set K \<inter> codes F"
    unfolding ids by (rule set_codes_filter)
  show "k \<notin> set (map price_id mprices)" if "k \<in> set K" "k \<notin> codes F" for k
    using that unfolding s by simp
qed

theorem create_prices_only_feed_and_known_witness:
  "create_prices feed_example [''C'', ''B'', ''12'', ''A''] =
     Inr ([\<lparr>auto_action_enabled = ''UNKNOWN'', currency_code = ''RUB'', price_offer_id = ''A'',
             old_price = ''0'', price = ''100''\<rparr>,
           \<lparr>auto_action_enabled = ''UNKNOWN'', currency_code = ''RUB'', price_offer_id = ''A'',
             old_price = ''0'', price = ''150''\<rparr>,
           \<lparr>auto_action_enabled = ''UNKNOWN'', currency_code = ''RUB'', price_offer_id = ''12'',
             old_price = ''0'', price = ''1''\<rparr>,
           \<lparr>auto_action_enabled = ''UNKNOWN'', currency_code = ''RUB'', price_offer_id = ''B'',
             old_price = ''0'', price = ''200''\<rparr>], [''C'', ''B'', ''12'', ''A''])
   \<and> market_create_prices ascii_interpreter feed_example [''C'', ''B'', ''12'', ''A''] =
     Inr ([\<lparr>price_id = ''A'', price_of = \<lparr>price_value = 100, currencyId = ''RUR''\<rparr>\<rparr>,
           \<lparr>price_id = ''A'', price_of = \<lparr>price_value = 150, currencyId = ''RUR''\<rparr>\<rparr>,
           \<lparr>price_id = ''12'', price_of = \<lparr>price_value = 1, currencyId = ''RUR''\<rparr>\<rparr>,
           \<lparr>price_id = ''B'', price_of = \<lparr>price_value = 200, currencyId = ''RUR''\<rparr>\<rparr>],
          [''C'', ''B'', ''12'', ''A''])
   \<and> ''C'' \<in> set [''C'', ''B'', ''12'', ''A''] \<and> ''C'' \<notin> codes feed_example
   \<and> [''A'', ''A'', ''12'', ''B'']
       = map code_of (filter (\<lambda>w. code_of w \<in> set [''C'', ''B'', ''12'', ''A'']) feed_example)
   \<and> {''A'', ''12'', ''B''} = set [''C'', ''B'', ''12'', ''A''] \<inter> codes feed_example"
proof -
  have k: "''C'' \<in> set [''C'', ''B'', ''12'', ''A'']" and c: "''C'' \<notin> codes feed_example"
    by (simp_all add: codes_feed_example)
  note t = create_prices_only_feed_and_known
    [where F = feed_example and K = "[''C'', ''B'', ''12'', ''A'']"
       and ?K1.0 = "[''C'', ''B'', ''12'', ''A'']" and py = ascii_interpreter
       and ?K2.0 = "[''C'', ''B'', ''12'', ''A'']"]
  note s = t [THEN conjunct1, THEN mp, OF create_prices_example]
  note m = t [THEN conjunct2, THEN mp, OF market_create_prices_example]
  from s have "map price_offer_id
       [\<lparr>auto_action_enabled = ''UNKNOWN'', currency_code = ''RUB'', price_offer_id = ''A'',
             old_price = ''0'', price = ''100''\<rparr>,
           \<lparr>auto_action_enabled = ''UNKNOWN'', currency_code = ''RUB'', price_offer_id = ''A'',
             old_price = ''0'', price = ''150''\<rparr>,
           \<lparr>auto_action_enabled = ''UNKNOWN'', currency_code = ''RUB'', price_offer_id = ''12'',
             old_price = ''0'', price = ''1''\<rparr>,
           \<lparr>auto_action_enabled = ''UNKNOWN'', currency_code = ''RUB'', price_offer_id = ''B'',
             old_price = ''0'', price = ''200''\<rparr>]
       = map code_of (filter (\<lambda>w. code_of w \<in> set [''C'', ''B'', ''12'', ''A'']) feed_example)"
    by blast
  then have 1: "[''A'', ''A'', ''12'', ''B'']
       = map code_of (filter (\<lambda>w. code_of w \<in> set [''C'', ''B'', ''12'', ''A'']) feed_example)"
    by (simp only: list.map price_entry.simps)
  from m have "set (map price_id
        [\<lparr>price_id = ''A'', price_of = \<lparr>price_value = 100, currencyId = ''RUR''\<rparr>\<rparr>,
           \<lparr>price_id = ''A'', price_of = \<lparr>price_value = 150, currencyId = ''RUR''\<rparr>\<rparr>,
           \<lparr>price_id = ''12'', price_of = \<lparr>price_value = 1, currencyId = ''RUR''\<rparr>\<rparr>,
           \<lparr>price_id = ''B'', price_of = \<lparr>price_value = 200, currencyId = ''RUR''\<rparr>\<rparr>])
       = set [''C'', ''B'', ''12'', ''A''] \<inter> codes feed_example"
    by blast
  moreover have "set (map price_id
        [\<lparr>price_id = ''A'', price_of = \<lparr>price_value = 100, currencyId = ''RUR''\<rparr>\<rparr>,
           \<lparr>price_id = ''A'', price_of = \<lparr>price_value = 150, currencyId = ''RUR''\<rparr>\<rparr>,
           \<lparr>price_id = ''12'', price_of = \<lparr>price_value = 1, currencyId = ''RUR''\<rparr>\<rparr>,
           \<lparr>price_id = ''B'', price_of = \<lparr>price_value = 200, currencyId = ''RUR''\<rparr>\<rparr>])
       = {''A'', ''12'', ''B''}"
    by simp
  ultimately have 2: "{''A'', ''12'', ''B''} = set [''C'', ''B'', ''12'', ''A''] \<inter> codes feed_example"
    by metis
  from 1 2 k c create_prices_example market_create_prices_example show ?thesis by blast
qed

section \<open>Properties of the paginator\<close>

lemma seller_product_loop_pages:
  "seller_pages request cursor n s ps s' \<Longrightarrow> length product_list = n \<Longrightarrow>
     seller_product_loop request cursor product_list s
       = Some (Inr (product_list @ concat (map result_items ps)), s')"
proof (induction arbitrary: product_list rule: seller_pages.induct)
  case (seller_last cursor s p s' n)
  then show ?case by (subst seller_product_loop.simps) simp
next
  case (seller_more cursor s p s1 n ps s')
  have "seller_product_loop request (last_id p) (product_list @ result_items p) s1
          = Some (Inr ((product_list @ result_items p) @ concat (map result_items ps)), s')"
    by (rule seller_more.IH) (simp add: seller_more.prems)
  with seller_more.hyps(1,2) seller_more.prems show ?case
    by (subst seller_product_loop.simps) simp
qed

lemma market_product_loop_pages:
  "market_pages request page s ps s' \<Longrightarrow>
     market_product_loop request page product_list s
       = Some (Inr (product_list @ concat (map offerMappingEntries ps)), s')"
proof (induction arbitrary: product_list rule: market_pages.induct)
  case (market_last page s p s')
  then show ?case by (subst market_product_loop.simps) (auto split: option.splits)
next
  case (market_more page s p s1 page' ps s')
  have "market_product_loop request page' (product_list @ offerMappingEntries p) s1
          = Some (Inr ((product_list @ offerMappingEntries p) @ concat (map offerMappingEntries ps)), s')"
    by (rule market_more.IH)
  with market_more.hyps(1,2,3) show ?case
    by (subst market_product_loop.simps) simp
qed

lemma seller_never_exhausted:
  assumes stuck: "\<forall>cursor s. \<exists>p s'. request cursor s = (Inr p, s') \<and> result_items p = [] \<and> total p \<noteq> 0"
  shows "seller_product_loop request cursor [] s = None"
proof (cases "seller_product_loop request cursor [] s")
  case None
  then show ?thesis .
next
  case (Some r)
  let ?P = "\<lambda>req (c :: string) (pl :: ozon_item list) (t :: 'a) (y :: (error + ozon_item list) \<times> 'a).
              req = request \<and> pl = [] \<longrightarrow> False"
  have "?P request cursor [] s r"
  proof (rule seller_product_loop.raw_induct [where P = ?P, OF _ Some], intro impI, elim conjE)
    fix loop req c pl t y
    assume IH: "\<And>req c pl t y. loop req c pl t = Some y \<Longrightarrow> req = request \<and> pl = [] \<longrightarrow> False"
      and body: "(case req c t of
                    (Inl e, s') \<Rightarrow> Some (Inl e, s')
                  | (Inr some_prod, s') \<Rightarrow>
                      (let product_list' = pl @ result_items some_prod
                       in if total some_prod = int (length product_list')
                          then Some (Inr product_list', s')
                          else loop req (last_id some_prod) product_list' s')) = Some y"
      and req: "req = request" and pl: "pl = []"
    from stuck obtain p s' where p: "request c t = (Inr p, s')" "result_items p = []" "total p \<noteq> 0"
      by blast
    with body req pl have "loop request (last_id p) [] s' = Some y" by simp
    from IH [OF this] show False by simp
  qed
  then show ?thesis by simp
qed

lemma market_never_exhausted:
  assumes stuck: "\<forall>page s. \<exists>p s' t. request page s = (Inr p, s')
                    \<and> nextPageToken (paging p) = Some t \<and> t \<noteq> []"
  shows "market_product_loop request page product_list s = None"
proof (cases "market_product_loop request page product_list s")
  case None
  then show ?thesis .
next
  case (Some r)
  let ?P = "\<lambda>req (c :: string) (pl :: mapping_entry list) (t :: 'a) (y :: (error + mapping_entry list) \<times> 'a).
              req = request \<longrightarrow> False"
  have "?P request page product_list s r"
  proof (rule market_product_loop.raw_induct [where P = ?P, OF _ Some], intro impI)
    fix loop req c pl t y
    assume IH: "\<And>req c pl t y. loop req c pl t = Some y \<Longrightarrow> req = request \<longrightarrow> False"
      and body: "(case req c t of
                    (Inl e, s') \<Rightarrow> Some (Inl e, s')
                  | (Inr some_prod, s') \<Rightarrow>
                      (let product_list' = pl @ offerMappingEntries some_prod
                       in case nextPageToken (paging some_prod) of
                            None \<Rightarrow> Some (Inr product_list', s')
                          | Some page' \<Rightarrow>
                              if page' = [] then Some (Inr product_list', s')
                              else loop req page' product_list' s')) = Some y"
      and req: "req = request"
    from stuck obtain p s' n where p: "request c t = (Inr p, s')"
      "nextPageToken (paging p) = Some n" "n \<noteq> []"
      by blast
    with body req have "loop request n (pl @ offerMappingEntries p) s' = Some y" by simp
    from IH [OF this] show False by simp
  qed
  then show ?thesis by simp
qed

lemma get_offer_ids_pages_seller:
  assumes "seller_pages request [] 0 s ps s'"
  shows "get_offer_ids request s
           = Some (Inr (concat (map (\<lambda>p. map ozon_offer_id (result_items p)) ps)), s')"
proof -
  from seller_product_loop_pages [OF assms, of "[]"]
  have "seller_product_loop request [] [] s = Some (Inr (concat (map result_items ps)), s')"
    by simp
  then show ?thesis by (simp add: get_offer_ids_def map_concat comp_def)
qed

lemma get_offer_ids_pages_market:
  assumes "market_pages request [] s ps s'"
  shows "market_get_offer_ids request s
           = Some (Inr (concat (map (\<lambda>p. map (\<lambda>e. shopSku (offer e)) (offerMappingEntries p)) ps)), s')"
proof -
  from market_product_loop_pages [OF assms, of "[]"]
  have "market_product_loop request [] [] s = Some (Inr (concat (map offerMappingEntries ps)), s')"
    by simp
  then show ?thesis by (simp add: market_get_offer_ids_def map_concat comp_def)
qed

lemma stuck_seller_never: "\<forall>cursor s. \<exists>p s'. stuck_seller cursor s = (Inr p, s') \<and> result_items p = [] \<and> total p \<noteq> 0"
  by (simp add: stuck_seller_def)

lemma stuck_market_never:
  "\<forall>page s. \<exists>p s' n. stuck_market page s = (Inr p, s') \<and> nextPageToken (paging p) = Some n \<and> n \<noteq> []"
  by (simp add: stuck_market_def)

text \<open>
  C7 (as stated, refuted): against a remote that answers every request with no item and a
  cursor that is not empty (market), or with no item and a total that is never reached
  (seller), \<^verbatim>\<open>get_offer_ids\<close> neither returns nor raises: the loop has no guard.
\<close>

theorem get_offer_ids_never_returns_counterexample:
  "stuck_market ''x'' () = (Inr \<lparr>offerMappingEntries = [], paging = \<lparr>nextPageToken = Some ''x''\<rparr>\<rparr>, ())
   \<and> market_get_offer_ids stuck_market () = None
   \<and> get_offer_ids stuck_seller () = None"
  by (simp add: market_get_offer_ids_def get_offer_ids_def stuck_market_def
      market_never_exhausted [OF stuck_market_never] seller_never_exhausted [OF stuck_seller_never])

text \<open>
  C7 (amended): when the remote reports exhaustion after finitely many pages, each answered
  without an exception (market: the first page whose next cursor is missing or empty;
  seller: the first page with which the number of items accumulated equals the reported
  total), \<^verbatim>\<open>get_offer_ids\<close> returns the ids of the items of these pages, concatenated in
  page order, each item once. When every answer keeps the loop going (market: a cursor
  that is not empty; seller: no item and a total that is not zero), it never returns and
  raises nothing.
\<close>

theorem get_offer_ids_returns_all_pages:
  "(seller_pages request [] 0 s ps s' \<longrightarrow>
      get_offer_ids request s
        = Some (Inr (concat (map (\<lambda>p. map ozon_offer_id (result_items p)) ps)), s'))
   \<and> (market_pages mrequest [] t qs t' \<longrightarrow>
      market_get_offer_ids mrequest t
        = Some (Inr (concat (map (\<lambda>p. map (\<lambda>e. shopSku (offer e)) (offerMappingEntries p)) qs)), t'))
   \<and> ((\<forall>cursor s. \<exists>p s'. request cursor s = (Inr p, s') \<and> result_items p = [] \<and> total p \<noteq> 0)
        \<longrightarrow> get_offer_ids request s = None)
   \<and> ((\<forall>page s. \<exists>p s' n. mrequest page s = (Inr p, s')
            \<and> nextPageToken (paging p) = Some n \<and> n \<noteq> [])
        \<longrightarrow> market_get_offer_ids mrequest t = None)"
proof (intro conjI impI)
  show "get_offer_ids request s
        = Some (Inr (concat (map (\<lambda>p. map ozon_offer_id (result_items p)) ps)), s')"
    if "seller_pages request [] 0 s ps s'"
    by (rule get_offer_ids_pages_seller [OF that])
  show "market_get_offer_ids mrequest t
        = Some (Inr (concat (map (\<lambda>p. map (\<lambda>e. shopSku (offer e)) (offerMappingEntries p)) qs)), t')"
    if "market_pages mrequest [] t qs t'"
    by (rule get_offer_ids_pages_market [OF that])
  show "get_offer_ids request s = None"
    if "\<forall>cursor s. \<exists>p s'. request cursor s = (Inr p, s') \<and> result_items p = [] \<and> total p \<noteq> 0"
    by (simp add: get_offer_ids_def seller_never_exhausted [OF that])
  show "market_get_offer_ids mrequest t = None"
    if "\<forall>page s. \<exists>p s' n. mrequest page s = (Inr p, s')
            \<and> nextPageToken (paging p) = Some n \<and> n \<noteq> []"
    by (simp add: market_get_offer_ids_def market_never_exhausted [OF that])
qed

lemma two_page_seller_pages:
  "seller_pages two_page_seller [] 0 0
     [\<lparr>result_items = [\<lparr>ozon_offer_id = ''A''\<rparr>, \<lparr>ozon_offer_id = ''B''\<rparr>], total = 3, last_id = ''B''\<rparr>,
      \<lparr>result_items = [\<lparr>ozon_offer_id = ''C''\<rparr>], total = 3, last_id = ''C''\<rparr>] 2"
  by (rule seller_more, simp add: two_page_seller_def, simp, rule seller_last)
     (simp_all add: two_page_seller_def)

lemma two_page_market_pages:
  "market_pages two_page_market [] 0
     [\<lparr>offerMappingEntries = [\<lparr>offer = \<lparr>shopSku = ''A''\<rparr>\<rparr>, \<lparr>offer = \<lparr>shopSku = ''B''\<rparr>\<rparr>],
       paging = \<lparr>nextPageToken = Some ''p2''\<rparr>\<rparr>,
      \<lparr>offerMappingEntries = [\<lparr>offer = \<lparr>shopSku = ''C''\<rparr>\<rparr>], paging = \<lparr>nextPageToken = None\<rparr>\<rparr>] 2"
  by (rule market_more [where page' = "''p2''"], simp add: two_page_market_def, simp, simp,
      rule market_last) (simp_all add: two_page_market_def)

theorem get_offer_ids_returns_all_pages_witness:
  "seller_pages two_page_seller [] 0 0
     [\<lparr>result_items = [\<lparr>ozon_offer_id = ''A''\<rparr>, \<lparr>ozon_offer_id = ''B''\<rparr>], total = 3, last_id = ''B''\<rparr>,
      \<lparr>result_items = [\<lparr>ozon_offer_id = ''C''\<rparr>], total = 3, last_id = ''C''\<rparr>] 2
   \<and> get_offer_ids two_page_seller 0 = Some (Inr [''A'', ''B'', ''C''], 2)
   \<and> market_pages two_page_market [] 0
     [\<lparr>offerMappingEntries = [\<lparr>offer = \<lparr>shopSku = ''A''\<rparr>\<rparr>, \<lparr>offer = \<lparr>shopSku = ''B''\<rparr>\<rparr>],
       paging = \<lparr>nextPageToken = Some ''p2''\<rparr>\<rparr>,
      \<lparr>offerMappingEntries = [\<lparr>offer = \<lparr>shopSku = ''C''\<rparr>\<rparr>], paging = \<lparr>nextPageToken = None\<rparr>\<rparr>] 2
   \<and> market_get_offer_ids two_page_market 0 = Some (Inr [''A'', ''B'', ''C''], 2)
   \<and> (\<forall>cursor s. \<exists>p s'. stuck_seller cursor s = (Inr p, s') \<and> result_items p = [] \<and> total p \<noteq> 0)
   \<and> get_offer_ids stuck_seller () = None
   \<and> (\<forall>page s. \<exists>p s' n. stuck_market page s = (Inr p, s')
          \<and> nextPageToken (paging p) = Some n \<and> n \<noteq> [])
   \<and> market_get_offer_ids stuck_market () = None"
proof -
  note a = get_offer_ids_returns_all_pages [of two_page_seller 0 _ 2 two_page_market 0 _ 2]
  note b = get_offer_ids_returns_all_pages [of stuck_seller "()" _ _ stuck_market "()"]
  from a two_page_seller_pages
  have 1: "get_offer_ids two_page_seller 0 = Some (Inr [''A'', ''B'', ''C''], 2)" by fastforce
  from a two_page_market_pages
  have 2: "market_get_offer_ids two_page_market 0 = Some (Inr [''A'', ''B'', ''C''], 2)" by fastforce
  from b stuck_seller_never have 3: "get_offer_ids stuck_seller () = None" by blast
  from b stuck_market_never have 4: "market_get_offer_ids stuck_market () = None" by blast
  from 1 2 3 4 two_page_seller_pages two_page_market_pages stuck_seller_never stuck_market_never
  show ?thesis by blast
qed

section \<open>Properties of the orchestrator\<close>

lemma stock_of_count_errors:
  "stock_of_count py q = Inl e \<Longrightarrow> e = ValueError \<or> e = TypeError"
  by (cases q) (auto simp: stock_of_count_def int_of_str_def Let_def split: if_splits option.splits)

lemma price_conversion_errors: "price_conversion v = Inl e \<Longrightarrow> e = AttributeError"
proof (cases v)
  case (PStr s)
  assume "price_conversion v = Inl e"
  with PStr show ?thesis by (simp only: price_conversion_str) simp
qed simp_all

lemma handler_value_errors:
  "e = ValueError \<or> e = TypeError \<or> e = AttributeError \<Longrightarrow> handler e = Error2Message e"
  by (auto simp: handler_def)

lemma create_stocks_bad_row:
  assumes "stocks_loop py F1 [] K = Inr (st1, K1)" "code_of bad \<in> set K1"
    "stock_of_count py (Kolichestvo bad) = Inl e"
  shows "create_stocks py (F1 @ bad # F2) K = Inl e"
  using assms by (simp add: create_stocks_def stocks_loop_append code_of_def)

lemma prices_loop_append:
  "prices_loop (F1 @ F2) K acc =
     (case prices_loop F1 K acc of Inl e \<Rightarrow> Inl e | Inr (ps, K1) \<Rightarrow> prices_loop F2 K1 ps)"
  by (induction F1 arbitrary: acc) (auto split: sum.splits)

lemma create_prices_bad_row:
  assumes "prices_loop F1 K [] = Inr (ps, K)" "code_of bad \<in> set K"
    "price_conversion (Tsena bad) = Inl e"
  shows "create_prices (F1 @ bad # F2) K = Inl e"
  using assms by (simp add: create_prices_def prices_loop_append code_of_def)

lemma main_stock_error:
  assumes "get_offer_ids (get_product_list r) s0 = Some (Inr K, s1)"
    "download_stock r s1 = (Inr F, s2)" "create_stocks py F K = Inl e"
  shows "main py r s0 = Some (Some (handler e), s2)"
  using assms by (simp add: main_def main_try_def)

lemma main_price_error:
  assumes "get_offer_ids (get_product_list r) s0 = Some (Inr K, s1)"
    "download_stock r s1 = (Inr F, s2)" "create_stocks py F K = Inr (stocks, K')"
    "divide_list stocks 100 = Inr batches" "update_all (update_stocks r) batches s2 = (None, s3)"
    "create_prices F K' = Inl e"
  shows "main py r s0 = Some (Some (handler e), s3)"
  using assms by (simp add: main_def main_try_def)

lemma prices_loop_none: "codes F \<inter> set K = {} \<Longrightarrow> prices_loop F K acc = Inr (acc, K)"
  by (induction F) (auto simp: codes_def code_of_def)

lemma create_prices_after_create_stocks:
  assumes "distinct K" "create_stocks py F K = Inr (stocks, K')"
  shows "K' = filter (\<lambda>k. k \<notin> codes F) K" "create_prices F K' = Inr ([], K')"
proof -
  show K': "K' = filter (\<lambda>k. k \<notin> codes F) K"
    by (rule create_stocks_order(4) [OF assms(2,1)])
  then have "codes F \<inter> set K' = {}" by auto
  then show "create_prices F K' = Inr ([], K')"
    by (simp add: create_prices_def prices_loop_none)
qed

lemma main_try_prices:
  assumes "distinct K" "get_offer_ids (get_product_list r) s0 = Some (Inr K, s1)"
    "download_stock r s1 = (Inr F, s2)" "main_try py r s0 = Some (Inr (stocks, prices), s4)"
  shows "prices = []"
proof (cases "create_stocks py F K")
  case (Inl e)
  with assms show ?thesis by (simp add: main_try_def)
next
  case (Inr res)
  obtain st K' where res: "res = (st, K')" by (cases res)
  from create_prices_after_create_stocks(2) [OF assms(1) Inr [unfolded res]]
  have "create_prices F K' = Inr ([], K')" .
  with assms Inr res show ?thesis
    by (auto simp: main_try_def divide_list_def split: sum.splits prod.splits option.splits)
qed

lemma get_offer_ids_logged:
  "get_offer_ids (get_product_list (logged_remote ids feed)) log = Some (Inr ids, log @ [Listed []])"
  by (simp add: get_offer_ids_def logged_remote_def seller_product_loop.simps comp_def)

lemma divide_short: "length lst \<le> nat n \<Longrightarrow> 0 < n \<Longrightarrow>
    divide_list lst n = Inr (if lst = [] then [] else [lst])"
  by (simp add: divide_list_def divide_from.simps [of 0] divide_from.simps [of "nat n"])

lemma logged_remote_fields:
  "download_stock (logged_remote ids feed) log = (Inr feed, log @ [Downloaded])"
  "update_stocks (logged_remote ids feed) some log = (None, log @ [StocksSent some])"
  "update_price (logged_remote ids feed) some' log = (None, log @ [PricesSent some'])"
  by (simp_all add: logged_remote_def)

lemmas run_simps =
  main_def main_try_def get_offer_ids_logged logged_remote_fields create_stocks_def
  create_prices_def stock_of_count_def int_of_str_def strip_def is_space_def is_digit_def
  is_ascii_def over_limit_def
  int_of_digits_def digit_val_def re_sub_non_digits_def divide_list_def divide_from.simps
  handler_def

lemma create_stocks_bad_unknown:
  "create_stocks py feed_bad_unknown [''A''] = Inr ([\<lparr>offer_id = ''A'', stock = 5\<rparr>], [])"
  by (simp add: feed_bad_unknown_def run_simps)

lemma main_bad_unknown:
  "main py (logged_remote [''A''] feed_bad_unknown) [] =
     Some (None, [Listed [], Downloaded, StocksSent [\<lparr>offer_id = ''A'', stock = 5\<rparr>]])"
  by (simp add: feed_bad_unknown_def run_simps)

lemma main_bad_known:
  "main py (logged_remote [''A'', ''B'', ''C''] feed_bad_known) [] =
     Some (Some (Error2Message ValueError), [Listed [], Downloaded])"
  by (simp add: feed_bad_known_def run_simps)

lemma main_no_price:
  "main py (logged_remote [''B'', ''B''] feed_no_price) [] =
     Some (Some (Error2Message AttributeError),
           [Listed [], Downloaded,
            StocksSent [\<lparr>offer_id = ''B'', stock = 2\<rparr>, \<lparr>offer_id = ''B'', stock = 0\<rparr>]])"
  by (simp add: feed_no_price_def run_simps)

lemma main_try_single:
  "main_try py (logged_remote [''A'', ''A''] feed_single) [] =
     Some (Inr ([\<lparr>offer_id = ''A'', stock = 5\<rparr>, \<lparr>offer_id = ''A'', stock = 0\<rparr>],
                [\<lparr>auto_action_enabled = ''UNKNOWN'', currency_code = ''RUB'',
                  price_offer_id = ''A'', old_price = ''0'', price = ''100''\<rparr>]),
           [Listed [], Downloaded,
            StocksSent [\<lparr>offer_id = ''A'', stock = 5\<rparr>, \<lparr>offer_id = ''A'', stock = 0\<rparr>],
            PricesSent [\<lparr>auto_action_enabled = ''UNKNOWN'', currency_code = ''RUB'',
                  price_offer_id = ''A'', old_price = ''0'', price = ''100''\<rparr>]])"
  by (simp add: feed_single_def run_simps)

lemma main_try_example:
  "main_try py (logged_remote [''C'', ''B'', ''12'', ''A''] feed_example) [] =
     Some (Inr ([\<lparr>offer_id = ''A'', stock = 5\<rparr>, \<lparr>offer_id = ''12'', stock = 0\<rparr>,
                 \<lparr>offer_id = ''B'', stock = 100\<rparr>, \<lparr>offer_id = ''C'', stock = 0\<rparr>], []),
           [Listed [], Downloaded,
            StocksSent [\<lparr>offer_id = ''A'', stock = 5\<rparr>, \<lparr>offer_id = ''12'', stock = 0\<rparr>,
                 \<lparr>offer_id = ''B'', stock = 100\<rparr>, \<lparr>offer_id = ''C'', stock = 0\<rparr>]])"
  by (simp add: feed_example_def str_int_12 str_int_1 run_simps)

lemma stocks_loop_bad_known_prefix:
  "stocks_loop py [\<lparr>Kod = PStr ''A'', Kolichestvo = PStr ''5'', Tsena = PStr ''100.00 x''\<rparr>] []
     [''A'', ''B'', ''C''] = Inr ([\<lparr>offer_id = ''A'', stock = 5\<rparr>], [''B'', ''C''])"
  by (simp add: run_simps)

lemma prices_loop_prefix:
  "prices_loop [\<lparr>Kod = PStr ''A'', Kolichestvo = PStr ''5'', Tsena = PStr ''100.00 x''\<rparr>]
     [''A'', ''B''] [] =
     Inr ([\<lparr>auto_action_enabled = ''UNKNOWN'', currency_code = ''RUB'',
             price_offer_id = ''A'', old_price = ''0'', price = ''100''\<rparr>], [''A'', ''B''])"
  by (simp add: run_simps)

lemma feed_bad_known_split:
  "feed_bad_known =
     [\<lparr>Kod = PStr ''A'', Kolichestvo = PStr ''5'', Tsena = PStr ''100.00 x''\<rparr>]
     @ \<lparr>Kod = PStr ''B'', Kolichestvo = PStr ''abc'', Tsena = PStr ''1.00 x''\<rparr>
     # [\<lparr>Kod = PStr ''C'', Kolichestvo = PStr ''2'', Tsena = PStr ''3.00 x''\<rparr>]"
  by (simp add: feed_bad_known_def)

lemma create_stocks_no_price:
  "create_stocks py feed_no_price [''B'', ''B''] =
     Inr ([\<lparr>offer_id = ''B'', stock = 2\<rparr>, \<lparr>offer_id = ''B'', stock = 0\<rparr>], [''B''])"
  by (simp add: feed_no_price_def run_simps)

text \<open>
  C8 (as stated, refuted): a row whose quantity is no number, but whose code is not a known
  id, raises nothing. \<^verbatim>\<open>create_stocks\<close> skips the row and processes the rest, and \<^verbatim>\<open>main\<close>
  sends the stocks and prints no message.
\<close>

theorem bad_unknown_row_skipped_counterexample:
  "stock_of_count ascii_interpreter (PStr ''abc'') = Inl ValueError
   \<and> feed_bad_unknown =
       [\<lparr>Kod = PStr ''Z'', Kolichestvo = PStr ''abc'', Tsena = PStr ''1.00 x''\<rparr>,
        \<lparr>Kod = PStr ''A'', Kolichestvo = PStr ''5'', Tsena = PStr ''100.00 x''\<rparr>]
   \<and> create_stocks ascii_interpreter feed_bad_unknown [''A''] = Inr ([\<lparr>offer_id = ''A'', stock = 5\<rparr>], [])
   \<and> main ascii_interpreter (logged_remote [''A''] feed_bad_unknown) [] =
       Some (None, [Listed [], Downloaded, StocksSent [\<lparr>offer_id = ''A'', stock = 5\<rparr>]])"
  using stock_of_count_examples(4) create_stocks_bad_unknown main_bad_unknown
  by (simp add: feed_bad_unknown_def)

text \<open>
  C8 (amended): a row is normalised only when its code is a known id at the moment the loop
  reaches it; a row with another code is skipped whatever its cells hold. When the
  quantity of such a matched row does not normalise (\<^verbatim>\<open>ValueError\<close>, \<^verbatim>\<open>TypeError\<close>), or
  its price cell is no string (\<^verbatim>\<open>AttributeError\<close>; no price string fails), the exception
  leaves \<^verbatim>\<open>create_stocks\<close>/\<^verbatim>\<open>create_prices\<close> whatever rows follow, and \<^verbatim>\<open>main\<close> catches it
  in its last clause and stops: after an exception of \<^verbatim>\<open>create_stocks\<close> the world is as
  the download left it (no update was sent); after one of \<^verbatim>\<open>create_prices\<close> the stocks
  have been sent and no price.
\<close>

theorem bad_matched_row_aborts_run:
  "(stocks_loop py F1 [] K = Inr (st1, K1) \<and> code_of bad \<in> set K1
      \<and> stock_of_count py (Kolichestvo bad) = Inl e \<longrightarrow>
      create_stocks py (F1 @ bad # F2) K = Inl e \<and> handler e = Error2Message e)
   \<and> (prices_loop F1 K [] = Inr (ps1, K) \<and> code_of bad \<in> set K
      \<and> price_conversion (Tsena bad) = Inl e \<longrightarrow>
      create_prices (F1 @ bad # F2) K = Inl e \<and> handler e = Error2Message e)
   \<and> (get_offer_ids (get_product_list r) s0 = Some (Inr K, s1)
      \<and> download_stock r s1 = (Inr F, s2) \<and> create_stocks py F K = Inl e \<longrightarrow>
      main py r s0 = Some (Some (handler e), s2))
   \<and> (get_offer_ids (get_product_list r) s0 = Some (Inr K, s1)
      \<and> download_stock r s1 = (Inr F, s2) \<and> create_stocks py F K = Inr (stocks, K')
      \<and> divide_list stocks 100 = Inr batches
      \<and> update_all (update_stocks r) batches s2 = (None, s3)
      \<and> create_prices F K' = Inl e \<longrightarrow>
      main py r s0 = Some (Some (handler e), s3))
   \<and> (code_of w \<notin> set K \<longrightarrow>
      stocks_loop py (w # F) st K = stocks_loop py F st K
      \<and> prices_loop (w # F) K ps = prices_loop F K ps)"
proof (intro conjI impI)
  assume h: "stocks_loop py F1 [] K = Inr (st1, K1) \<and> code_of bad \<in> set K1
      \<and> stock_of_count py (Kolichestvo bad) = Inl e"
  then show "create_stocks py (F1 @ bad # F2) K = Inl e"
    by (elim conjE) (rule create_stocks_bad_row)
  from h stock_of_count_errors have "e = ValueError \<or> e = TypeError" by blast
  then show "handler e = Error2Message e" by (auto simp: handler_value_errors)
next
  assume h: "prices_loop F1 K [] = Inr (ps1, K) \<and> code_of bad \<in> set K
      \<and> price_conversion (Tsena bad) = Inl e"
  then show "create_prices (F1 @ bad # F2) K = Inl e"
    by (elim conjE) (rule create_prices_bad_row)
  from h price_conversion_errors have "e = AttributeError" by blast
  then show "handler e = Error2Message e" by (simp add: handler_value_errors)
next
  assume "get_offer_ids (get_product_list r) s0 = Some (Inr K, s1)
      \<and> download_stock r s1 = (Inr F, s2) \<and> create_stocks py F K = Inl e"
  then show "main py r s0 = Some (Some (handler e), s2)"
    by (elim conjE) (rule main_stock_error)
next
  assume "get_offer_ids (get_product_list r) s0 = Some (Inr K, s1)
      \<and> download_stock r s1 = (Inr F, s2) \<and> create_stocks py F K = Inr (stocks, K')
      \<and> divide_list stocks 100 = Inr batches
      \<and> update_all (update_stocks r) batches s2 = (None, s3)
      \<and> create_prices F K' = Inl e"
  then show "main py r s0 = Some (Some (handler e), s3)"
    by (elim conjE) (rule main_price_error)
next
  assume "code_of w \<notin> set K"
  then show "stocks_loop py (w # F) st K = stocks_loop py F st K"
    and "prices_loop (w # F) K ps = prices_loop F K ps"
    by (simp_all add: code_of_def)
qed

theorem bad_matched_row_aborts_run_witness:
  "stocks_loop ascii_interpreter [\<lparr>Kod = PStr ''A'', Kolichestvo = PStr ''5'', Tsena = PStr ''100.00 x''\<rparr>] []
     [''A'', ''B'', ''C''] = Inr ([\<lparr>offer_id = ''A'', stock = 5\<rparr>], [''B'', ''C''])
   \<and> code_of \<lparr>Kod = PStr ''B'', Kolichestvo = PStr ''abc'', Tsena = PStr ''1.00 x''\<rparr>
        \<in> set [''B'', ''C'']
   \<and> stock_of_count ascii_interpreter (PStr ''abc'') = Inl ValueError
   \<and> create_stocks ascii_interpreter feed_bad_known [''A'', ''B'', ''C''] = Inl ValueError
   \<and> handler ValueError = Error2Message ValueError
   \<and> prices_loop [\<lparr>Kod = PStr ''A'', Kolichestvo = PStr ''5'', Tsena = PStr ''100.00 x''\<rparr>]
        [''A'', ''B''] [] =
       Inr ([\<lparr>auto_action_enabled = ''UNKNOWN'', currency_code = ''RUB'',
               price_offer_id = ''A'', old_price = ''0'', price = ''100''\<rparr>], [''A'', ''B''])
   \<and> code_of \<lparr>Kod = PStr ''B'', Kolichestvo = PStr ''2'', Tsena = PNone\<rparr> \<in> set [''A'', ''B'']
   \<and> price_conversion PNone = Inl AttributeError
   \<and> create_prices
        ([\<lparr>Kod = PStr ''A'', Kolichestvo = PStr ''5'', Tsena = PStr ''100.00 x''\<rparr>]
         @ \<lparr>Kod = PStr ''B'', Kolichestvo = PStr ''2'', Tsena = PNone\<rparr> # [])
        [''A'', ''B''] = Inl AttributeError
   \<and> get_offer_ids (get_product_list (logged_remote [''A'', ''B'', ''C''] feed_bad_known)) []
       = Some (Inr [''A'', ''B'', ''C''], [Listed []])
   \<and> download_stock (logged_remote [''A'', ''B'', ''C''] feed_bad_known) [Listed []]
       = (Inr feed_bad_known, [Listed [], Downloaded])
   \<and> main ascii_interpreter (logged_remote [''A'', ''B'', ''C''] feed_bad_known) []
       = Some (Some (Error2Message ValueError), [Listed [], Downloaded])
   \<and> create_stocks ascii_interpreter feed_no_price [''B'', ''B''] =
       Inr ([\<lparr>offer_id = ''B'', stock = 2\<rparr>, \<lparr>offer_id = ''B'', stock = 0\<rparr>], [''B''])
   \<and> create_prices feed_no_price [''B''] = Inl AttributeError
   \<and> main ascii_interpreter (logged_remote [''B'', ''B''] feed_no_price) []
       = Some (Some (Error2Message AttributeError),
           [Listed [], Downloaded,
            StocksSent [\<lparr>offer_id = ''B'', stock = 2\<rparr>, \<lparr>offer_id = ''B'', stock = 0\<rparr>]])
   \<and> code_of \<lparr>Kod = PStr ''Z'', Kolichestvo = PStr ''abc'', Tsena = PStr ''1.00 x''\<rparr>
        \<notin> set [''A'']
   \<and> stocks_loop ascii_interpreter feed_bad_unknown [] [''A'']
       = stocks_loop ascii_interpreter [\<lparr>Kod = PStr ''A'', Kolichestvo = PStr ''5'', Tsena = PStr ''100.00 x''\<rparr>]
           [] [''A'']"
proof -
  let ?a = "\<lparr>Kod = PStr ''A'', Kolichestvo = PStr ''5'', Tsena = PStr ''100.00 x''\<rparr>"
  let ?b = "\<lparr>Kod = PStr ''B'', Kolichestvo = PStr ''abc'', Tsena = PStr ''1.00 x''\<rparr>"
  let ?c = "\<lparr>Kod = PStr ''C'', Kolichestvo = PStr ''2'', Tsena = PStr ''3.00 x''\<rparr>"
  let ?n = "\<lparr>Kod = PStr ''B'', Kolichestvo = PStr ''2'', Tsena = PNone\<rparr>"
  let ?z = "\<lparr>Kod = PStr ''Z'', Kolichestvo = PStr ''abc'', Tsena = PStr ''1.00 x''\<rparr>"
  have 1: "code_of ?b \<in> set [''B'', ''C'']" "stock_of_count ascii_interpreter (Kolichestvo ?b) = Inl ValueError"
    by (simp_all add: code_of_def stock_of_count_examples)
  have 2: "code_of ?n \<in> set [''A'', ''B'']" "price_conversion (Tsena ?n) = Inl AttributeError"
    by (simp_all add: code_of_def)
  have 3: "get_offer_ids (get_product_list (logged_remote [''A'', ''B'', ''C''] feed_bad_known)) []
       = Some (Inr [''A'', ''B'', ''C''], [Listed []])"
    "download_stock (logged_remote [''A'', ''B'', ''C''] feed_bad_known) [Listed []]
       = (Inr feed_bad_known, [Listed [], Downloaded])"
    by (simp_all add: get_offer_ids_logged logged_remote_fields)
  have 4: "get_offer_ids (get_product_list (logged_remote [''B'', ''B''] feed_no_price)) []
       = Some (Inr [''B'', ''B''], [Listed []])"
    "download_stock (logged_remote [''B'', ''B''] feed_no_price) [Listed []]
       = (Inr feed_no_price, [Listed [], Downloaded])"
    "divide_list [\<lparr>offer_id = ''B'', stock = 2\<rparr>, \<lparr>offer_id = ''B'', stock = 0\<rparr>] 100
       = Inr [[\<lparr>offer_id = ''B'', stock = 2\<rparr>, \<lparr>offer_id = ''B'', stock = 0\<rparr>]]"
    "update_all (update_stocks (logged_remote [''B'', ''B''] feed_no_price))
       [[\<lparr>offer_id = ''B'', stock = 2\<rparr>, \<lparr>offer_id = ''B'', stock = 0\<rparr>]] [Listed [], Downloaded]
       = (None, [Listed [], Downloaded,
            StocksSent [\<lparr>offer_id = ''B'', stock = 2\<rparr>, \<lparr>offer_id = ''B'', stock = 0\<rparr>]])"
    by (simp_all add: get_offer_ids_logged logged_remote_fields divide_list_def divide_from.simps)
  have 5: "code_of ?z \<notin> set [''A'']" by (simp add: code_of_def)
  have h: "handler ValueError = Error2Message ValueError"
    "handler AttributeError = Error2Message AttributeError"
    by (simp_all add: handler_def)
  note A = bad_matched_row_aborts_run
    [where ?F1.0 = "[?a]" and K = "[''A'', ''B'', ''C'']" and ?K1.0 = "[''B'', ''C'']"
       and bad = ?b and e = ValueError and ?F2.0 = "[?c]",
     THEN conjunct1, THEN mp, OF conjI [OF stocks_loop_bad_known_prefix conjI [OF 1]]]
  note B = bad_matched_row_aborts_run
    [where ?F1.0 = "[?a]" and K = "[''A'', ''B'']" and bad = ?n and e = AttributeError
       and ?F2.0 = "[]",
     THEN conjunct2, THEN conjunct1, THEN mp, OF conjI [OF prices_loop_prefix conjI [OF 2]]]
  from A have a: "create_stocks ascii_interpreter feed_bad_known [''A'', ''B'', ''C''] = Inl ValueError"
    by (simp only: feed_bad_known_split)
  note C = bad_matched_row_aborts_run
    [where K = "[''A'', ''B'', ''C'']" and e = ValueError
       and r = "logged_remote [''A'', ''B'', ''C''] feed_bad_known" and ?s0.0 = "[]"
       and ?s1.0 = "[Listed []]" and F = feed_bad_known and ?s2.0 = "[Listed [], Downloaded]",
     THEN conjunct2, THEN conjunct2, THEN conjunct1, THEN mp, OF conjI [OF 3(1) conjI [OF 3(2) a]]]
  have p: "create_prices feed_no_price [''B''] = Inl AttributeError"
    by (simp add: feed_no_price_def create_prices_def)
  note D = bad_matched_row_aborts_run
    [where K = "[''B'', ''B'']" and e = AttributeError
       and r = "logged_remote [''B'', ''B''] feed_no_price" and ?s0.0 = "[]"
       and ?s1.0 = "[Listed []]" and F = feed_no_price and ?s2.0 = "[Listed [], Downloaded]"
       and stocks = "[\<lparr>offer_id = ''B'', stock = 2\<rparr>, \<lparr>offer_id = ''B'', stock = 0\<rparr>]"
       and K' = "[''B'']"
       and batches = "[[\<lparr>offer_id = ''B'', stock = 2\<rparr>, \<lparr>offer_id = ''B'', stock = 0\<rparr>]]"
       and ?s3.0 = "[Listed [], Downloaded,
            StocksSent [\<lparr>offer_id = ''B'', stock = 2\<rparr>, \<lparr>offer_id = ''B'', stock = 0\<rparr>]]",
     THEN conjunct2, THEN conjunct2, THEN conjunct2, THEN conjunct1, THEN mp,
     OF conjI [OF 4(1) conjI [OF 4(2) conjI [OF create_stocks_no_price conjI [OF 4(3) conjI [OF 4(4) p]]]]]]
  note E = bad_matched_row_aborts_run
    [where K = "[''A'']" and F = "[?a]" and w = ?z and st = "[]",
     THEN conjunct2, THEN conjunct2, THEN conjunct2, THEN conjunct2, THEN mp, OF 5,
     THEN conjunct1]
  have e: "stocks_loop ascii_interpreter feed_bad_unknown [] [''A''] = stocks_loop ascii_interpreter [?a] [] [''A'']"
    unfolding feed_bad_unknown_def by (rule E)
  from 1 2 have q1: "stock_of_count ascii_interpreter (PStr ''abc'') = Inl ValueError"
    and q2: "price_conversion PNone = Inl AttributeError" by simp_all
  from C h have c: "main ascii_interpreter (logged_remote [''A'', ''B'', ''C''] feed_bad_known) []
       = Some (Some (Error2Message ValueError), [Listed [], Downloaded])" by simp
  from D h have d: "main ascii_interpreter (logged_remote [''B'', ''B''] feed_no_price) []
       = Some (Some (Error2Message AttributeError),
           [Listed [], Downloaded,
            StocksSent [\<lparr>offer_id = ''B'', stock = 2\<rparr>, \<lparr>offer_id = ''B'', stock = 0\<rparr>]])"
    by simp
  from stocks_loop_bad_known_prefix 1(1) q1 a h(1) prices_loop_prefix 2(1) q2 B [THEN conjunct1]
    3 c create_stocks_no_price p d 5 e
  show ?thesis by (intro conjI)
qed

text \<open>
  C10 (as stated, refuted): when the list of known ids holds an id twice, \<^verbatim>\<open>remove\<close> deletes
  one copy only; after the call the list still holds an id a feed row has matched, and
  \<^verbatim>\<open>main\<close> builds a price for it although the feed has no repeated code.
\<close>

theorem create_stocks_duplicate_id_counterexample:
  "distinct (map code_of feed_single)
   \<and> ''A'' \<in> codes feed_single
   \<and> create_stocks ascii_interpreter feed_single [''A'', ''A''] =
       Inr ([\<lparr>offer_id = ''A'', stock = 5\<rparr>, \<lparr>offer_id = ''A'', stock = 0\<rparr>], [''A''])
   \<and> main_try ascii_interpreter (logged_remote [''A'', ''A''] feed_single) [] =
     Some (Inr ([\<lparr>offer_id = ''A'', stock = 5\<rparr>, \<lparr>offer_id = ''A'', stock = 0\<rparr>],
                [\<lparr>auto_action_enabled = ''UNKNOWN'', currency_code = ''RUB'',
                  price_offer_id = ''A'', old_price = ''0'', price = ''100''\<rparr>]),
           [Listed [], Downloaded,
            StocksSent [\<lparr>offer_id = ''A'', stock = 5\<rparr>, \<lparr>offer_id = ''A'', stock = 0\<rparr>],
            PricesSent [\<lparr>auto_action_enabled = ''UNKNOWN'', currency_code = ''RUB'',
                  price_offer_id = ''A'', old_price = ''0'', price = ''100''\<rparr>]])"
  using main_try_single
  by (simp add: feed_single_def codes_def code_of_def create_stocks_def stock_of_count_def
      int_of_str_def strip_def is_space_def is_digit_def int_of_digits_def digit_val_def
      is_ascii_def over_limit_def)

text \<open>
  C10 (amended): for a duplicate-free list of known ids, \<^verbatim>\<open>create_stocks\<close> (both variants)
  leaves in \<^verbatim>\<open>offer_ids\<close> exactly the ids that are the code of no feed row, in their
  order; so the \<^verbatim>\<open>create_prices\<close> call that follows it in \<^verbatim>\<open>main\<close> of seller.py sees only
  those, and the price list \<^verbatim>\<open>main\<close> builds is empty for every feed, with or without
  repeated codes.
\<close>

theorem create_stocks_leaves_unmatched_ids:
  assumes "distinct K"
  shows "(create_stocks py F K = Inr (stocks, K') \<longrightarrow>
            K' = filter (\<lambda>k. k \<notin> codes F) K \<and> create_prices F K' = Inr ([], K'))
       \<and> (market_create_stocks py date F K wid = Inr (skus, K'') \<longrightarrow>
            K'' = filter (\<lambda>k. k \<notin> codes F) K)
       \<and> (get_offer_ids (get_product_list r) s0 = Some (Inr K, s1)
            \<and> download_stock r s1 = (Inr F, s2)
            \<and> main_try py r s0 = Some (Inr (built_stocks, built_prices), s4) \<longrightarrow>
            built_prices = [])"
proof (intro conjI impI)
  assume r: "create_stocks py F K = Inr (stocks, K')"
  show "K' = filter (\<lambda>k. k \<notin> codes F) K"
    by (rule create_prices_after_create_stocks(1) [OF assms r])
  show "create_prices F K' = Inr ([], K')"
    by (rule create_prices_after_create_stocks(2) [OF assms r])
next
  assume "market_create_stocks py date F K wid = Inr (skus, K'')"
  from market_create_stocks_Inr [OF this] obtain st where "create_stocks py F K = Inr (st, K'')"
    by blast
  then show "K'' = filter (\<lambda>k. k \<notin> codes F) K"
    by (rule create_prices_after_create_stocks(1) [OF assms])
next
  assume "get_offer_ids (get_product_list r) s0 = Some (Inr K, s1)
            \<and> download_stock r s1 = (Inr F, s2)
            \<and> main_try py r s0 = Some (Inr (built_stocks, built_prices), s4)"
  then show "built_prices = []"
    by (elim conjE) (rule main_try_prices [OF assms])
qed

theorem create_stocks_leaves_unmatched_ids_witness:
  "distinct [''C'', ''B'', ''12'', ''A'']
   \<and> create_stocks ascii_interpreter feed_example [''C'', ''B'', ''12'', ''A''] =
       Inr ([\<lparr>offer_id = ''A'', stock = 5\<rparr>, \<lparr>offer_id = ''12'', stock = 0\<rparr>,
             \<lparr>offer_id = ''B'', stock = 100\<rparr>, \<lparr>offer_id = ''C'', stock = 0\<rparr>], [''C''])
   \<and> [''C''] = filter (\<lambda>k. k \<notin> codes feed_example) [''C'', ''B'', ''12'', ''A'']
   \<and> create_prices feed_example [''C''] = Inr ([], [''C''])
   \<and> market_create_stocks ascii_interpreter ''d'' feed_example [''C'', ''B'', ''12'', ''A''] ''w'' =
       Inr ([\<lparr>sku = ''A'', warehouseId = ''w'',
              items = [\<lparr>item_count = 5, item_type = ''FIT'', updatedAt = ''d''\<rparr>]\<rparr>,
           \<lparr>sku = ''12'', warehouseId = ''w'',
              items = [\<lparr>item_count = 0, item_type = ''FIT'', updatedAt = ''d''\<rparr>]\<rparr>,
           \<lparr>sku = ''B'', warehouseId = ''w'',
              items = [\<lparr>item_count = 100, item_type = ''FIT'', updatedAt = ''d''\<rparr>]\<rparr>,
           \<lparr>sku = ''C'', warehouseId = ''w'',
              items = [\<lparr>item_count = 0, item_type = ''FIT'', updatedAt = ''d''\<rparr>]\<rparr>], [''C''])
   \<and> get_offer_ids (get_product_list (logged_remote [''C'', ''B'', ''12'', ''A''] feed_example)) []
       = Some (Inr [''C'', ''B'', ''12'', ''A''], [Listed []])
   \<and> download_stock (logged_remote [''C'', ''B'', ''12'', ''A''] feed_example) [Listed []]
       = (Inr feed_example, [Listed [], Downloaded])
   \<and> main_try ascii_interpreter (logged_remote [''C'', ''B'', ''12'', ''A''] feed_example) [] =
     Some (Inr ([\<lparr>offer_id = ''A'', stock = 5\<rparr>, \<lparr>offer_id = ''12'', stock = 0\<rparr>,
                 \<lparr>offer_id = ''B'', stock = 100\<rparr>, \<lparr>offer_id = ''C'', stock = 0\<rparr>], []),
           [Listed [], Downloaded,
            StocksSent [\<lparr>offer_id = ''A'', stock = 5\<rparr>, \<lparr>offer_id = ''12'', stock = 0\<rparr>,
                 \<lparr>offer_id = ''B'', stock = 100\<rparr>, \<lparr>offer_id = ''C'', stock = 0\<rparr>]])"
proof -
  have d: "distinct [''C'', ''B'', ''12'', ''A'']" by simp
  have g: "get_offer_ids (get_product_list (logged_remote [''C'', ''B'', ''12'', ''A''] feed_example)) []
       = Some (Inr [''C'', ''B'', ''12'', ''A''], [Listed []])"
    "download_stock (logged_remote [''C'', ''B'', ''12'', ''A''] feed_example) [Listed []]
       = (Inr feed_example, [Listed [], Downloaded])"
    by (simp_all add: get_offer_ids_logged logged_remote_fields)
  note t = create_stocks_leaves_unmatched_ids
    [OF d, where py = ascii_interpreter and F = feed_example and K' = "[''C'']"]
  from t [THEN conjunct1, THEN mp, OF create_stocks_example]
  have 1: "[''C''] = filter (\<lambda>k. k \<notin> codes feed_example) [''C'', ''B'', ''12'', ''A'']"
    and 2: "create_prices feed_example [''C''] = Inr ([], [''C''])" by blast+
  from d create_stocks_example 1 2 market_create_stocks_example g main_try_example
  show ?thesis by (intro conjI)
qed

end
